theory Spec2Isabelle
  imports Complex_Main
begin

section \<open>SNID SAGE: clustering, preprocessing helpers and the identify command\<close>

text \<open>
  A shallow embedding of the parts of \<^verbatim>\<open>snid/cosmological_clustering.py\<close>,
  \<^verbatim>\<open>snid/preprocessing.py\<close> and \<^verbatim>\<open>interfaces/cli/identify.py\<close> that the
  properties below are about. Python floats are idealised as \<^typ>\<open>real\<close>: the
  properties concern which branch is taken, which element is selected and which
  formula is applied, not rounding. Python integers are \<^typ>\<open>int\<close> (or \<^typ>\<open>nat\<close> for
  lengths), exceptions are values of \<open>py_error\<close> on the left of a sum.
\<close>

datatype py_error =
    TypeError
  | ValueError
  | IndexError
  | KeyError
  | ZeroDivisionError
  | OverflowError
  | NameError

subsection \<open>Python and NumPy primitives\<close>

text \<open>
  \<^verbatim>\<open>list.sort(key=..., reverse=True)\<close>: CPython reverses the list, sorts it stably in
  ascending order and reverses the result, so that elements with equal keys keep their
  original relative order.
\<close>

definition sort_reverse :: "('a \<Rightarrow> 'k::linorder) \<Rightarrow> 'a list \<Rightarrow> 'a list" where
  "sort_reverse key xs = rev (sort_key key (rev xs))"

definition np_mean :: "real list \<Rightarrow> real" where
  "np_mean xs = sum_list xs / real (length xs)"

subsection \<open>Matches and cluster candidates\<close>

text \<open>
  A match is a dictionary; the keys read by the clustering code are \<^verbatim>\<open>redshift\<close>,
  \<^verbatim>\<open>rlap\<close>, \<^verbatim>\<open>rlap_cos\<close> and \<^verbatim>\<open>template['subtype']\<close>. An absent key is \<open>None\<close>.
\<close>

text \<open>
  A subtype label is a Python \<^verbatim>\<open>str\<close>: a list of Unicode code points, so that blank
  characters outside ASCII can be told apart.
\<close>

type_synonym ustr = "nat list"

record match =
  redshift :: real
  rlap :: "real option"
  rlap_cos :: "real option"
  template_subtype :: "ustr option"

definition match_get :: "match \<Rightarrow> string \<Rightarrow> real option" where
  "match_get m k =
     (if k = ''rlap_cos'' then rlap_cos m
      else if k = ''rlap'' then rlap m
      else if k = ''redshift'' then Some (redshift m)
      else None)"

text \<open>\<^verbatim>\<open>match.get(metric_key, match.get('rlap', 0))\<close>\<close>

definition get_metric :: "string \<Rightarrow> match \<Rightarrow> real" where
  "get_metric metric_key m =
     (case match_get m metric_key of
        Some v \<Rightarrow> v
      | None \<Rightarrow> (case match_get m ''rlap'' of Some v \<Rightarrow> v | None \<Rightarrow> 0))"

datatype quality = tight | moderate | loose | very_loose

text \<open>
  A cluster candidate as built by \<^verbatim>\<open>perform_direct_gmm_clustering\<close>, with the fields
  that \<^verbatim>\<open>find_winning_cluster_top5_method\<close> writes into it.
\<close>

record cluster =
  type_name :: string
  cluster_id :: nat
  matches :: "match list"
  size_field :: nat
  redshift_span :: real
  redshift_quality :: quality
  top_5_values :: "real list"
  top_5_mean :: real
  penalty_factor :: real
  penalized_score :: real
  composite_score :: real

text \<open>The \<^verbatim>\<open>cluster_info\<close> dictionary appended to \<^verbatim>\<open>cluster_scores\<close>.\<close>

record cluster_score =
  info_cluster :: cluster
  info_cluster_size :: nat
  info_top_5_values :: "real list"
  info_top_5_mean :: real
  info_penalty_factor :: real
  info_penalized_score :: real
  info_cluster_type :: string
  info_cluster_id :: nat

subsection \<open>\<^verbatim>\<open>find_winning_cluster_top5_method\<close>\<close>

text \<open>The sorted metric values of a cluster, highest first.\<close>

definition sorted_metric_values :: "string \<Rightarrow> match list \<Rightarrow> real list" where
  "sorted_metric_values metric_key ms =
     sort_reverse (\<lambda>v. v) (map (get_metric metric_key) ms)"

text \<open>The body of the loop over the candidates, for a candidate that has matches.\<close>

definition score_cluster :: "string \<Rightarrow> cluster \<Rightarrow> cluster_score" where
  "score_cluster metric_key c =
     (let metric_values = sorted_metric_values metric_key (matches c);
          top5 = take 5 metric_values;
          mean5 = (if top5 \<noteq> [] then np_mean top5 else 0);
          pf = (if length metric_values < 5
                then (95 / 100) ^ (5 - length metric_values) else 1);
          score = mean5 * pf;
          c' = c\<lparr>top_5_values := top5, top_5_mean := mean5, penalty_factor := pf,
                 penalized_score := score, composite_score := score\<rparr>
      in \<lparr>info_cluster = c', info_cluster_size = length (matches c),
          info_top_5_values = top5, info_top_5_mean = mean5,
          info_penalty_factor = pf, info_penalized_score = score,
          info_cluster_type = type_name c, info_cluster_id = cluster_id c\<rparr>)"

text \<open>Candidates without matches are skipped (\<^verbatim>\<open>continue\<close>).\<close>

definition cluster_scores :: "string \<Rightarrow> cluster list \<Rightarrow> cluster_score list" where
  "cluster_scores metric_key cands =
     map (score_cluster metric_key) (filter (\<lambda>c. matches c \<noteq> []) cands)"

text \<open>
  The function returns the winning cluster (\<open>None\<close> with an error dictionary when there
  is no candidate or no candidate with matches) and, as the assessment, the sorted list
  \<^verbatim>\<open>all_cluster_scores\<close>. The confidence and quality texts derived from that list are not
  part of the model.
\<close>

definition find_winning_cluster_top5_method ::
  "cluster list \<Rightarrow> bool \<Rightarrow> cluster option \<times> cluster_score list" where
  "find_winning_cluster_top5_method all_cluster_candidates use_rlap_cos =
     (if all_cluster_candidates = [] then (None, [])
      else
        let metric_key = (if use_rlap_cos then ''rlap_cos'' else ''rlap'');
            scores = cluster_scores metric_key all_cluster_candidates
        in if scores = [] then (None, [])
           else
             let sorted_scores = sort_reverse info_penalized_score scores;
                 winning_cluster_info = hd sorted_scores
             in (Some (info_cluster winning_cluster_info), sorted_scores))"

subsection \<open>\<^verbatim>\<open>choose_subtype_weighted_voting\<close>\<close>

record member =
  subtype :: ustr
  metric_value :: real
  cluster_membership :: real

text \<open>
  The code points \<^verbatim>\<open>str.strip()\<close> removes: the characters U+0009 to U+000D, U+001C to
  U+001F, U+0020, U+0085, U+00A0, U+1680, U+2000 to U+200A, U+2028, U+2029, U+202F,
  U+205F and U+3000.
\<close>

definition py_isspace :: "nat \<Rightarrow> bool" where
  "py_isspace c =
     (c \<in> set [0x09, 0x0A, 0x0B, 0x0C, 0x0D, 0x1C, 0x1D, 0x1E, 0x1F, 0x20, 0x85, 0xA0,
                0x1680, 0x2028, 0x2029, 0x202F, 0x205F, 0x3000]
      \<or> (0x2000 \<le> c \<and> c \<le> 0x200A))"

text \<open>The label \<^verbatim>\<open>'Unknown'\<close>.\<close>

definition unknown_label :: ustr where
  "unknown_label = [0x55, 0x6E, 0x6B, 0x6E, 0x6F, 0x77, 0x6E]"

text \<open>
  \<^verbatim>\<open>subtype = match['template'].get('subtype', 'Unknown')\<close>, replaced by
  \<^verbatim>\<open>'Unknown'\<close> when it is empty or blank.
\<close>

definition member_subtype :: "match \<Rightarrow> ustr" where
  "member_subtype m =
     (let st = (case template_subtype m of Some s \<Rightarrow> s | None \<Rightarrow> unknown_label)
      in if st = [] \<or> list_all py_isspace st then unknown_label else st)"

text \<open>
  The first loop: the members of cluster \<open>k_star\<close>, by responsibility. \<open>gamma\<close> is the
  responsibility matrix, one row per match; reading \<^verbatim>\<open>gamma[i, k_star]\<close> outside it raises
  \<^verbatim>\<open>IndexError\<close>. The helper \<^verbatim>\<open>get_best_metric_value\<close> lives in
  \<^verbatim>\<open>shared/utils/math_utils.py\<close> and is a parameter here.
\<close>

fun collect_members ::
  "(match \<Rightarrow> real) \<Rightarrow> real list list \<Rightarrow> nat \<Rightarrow> real \<Rightarrow> nat \<Rightarrow> match list
     \<Rightarrow> py_error + member list" where
  "collect_members get_best_metric_value gamma k_star resp_cut i [] = Inr []"
| "collect_members get_best_metric_value gamma k_star resp_cut i (m # ms) =
     (if i < length gamma \<and> k_star < length (gamma ! i) then
        (case collect_members get_best_metric_value gamma k_star resp_cut (Suc i) ms of
           Inl e \<Rightarrow> Inl e
         | Inr rest \<Rightarrow>
             if resp_cut \<le> gamma ! i ! k_star
             then Inr (\<lparr>subtype = member_subtype m,
                        metric_value = get_best_metric_value m,
                        cluster_membership = gamma ! i ! k_star\<rparr> # rest)
             else Inr rest)
      else Inl IndexError)"

text \<open>
  \<^verbatim>\<open>subtype_groups[member['subtype']].append(member)\<close> on a \<^verbatim>\<open>defaultdict(list)\<close>: an
  association list in insertion order.
\<close>

fun group_append ::
  "ustr \<Rightarrow> member \<Rightarrow> (ustr \<times> member list) list \<Rightarrow> (ustr \<times> member list) list" where
  "group_append k v [] = [(k, [v])]"
| "group_append k v ((k', vs) # rest) =
     (if k = k' then (k', vs @ [v]) # rest else (k', vs) # group_append k v rest)"

definition subtype_groups :: "member list \<Rightarrow> (ustr \<times> member list) list" where
  "subtype_groups cluster_members =
     foldl (\<lambda>groups m. group_append (subtype m) m groups) [] cluster_members"

text \<open>The body of the loop over the groups.\<close>

definition subtype_score :: "member list \<Rightarrow> py_error + real" where
  "subtype_score members =
     (let sorted_members = sort_reverse metric_value members;
          top_members = take 5 sorted_members;
          top_values = map metric_value top_members
      in if top_values = [] then Inl ZeroDivisionError
         else
           let mean_top = sum_list top_values / real (length top_values);
               penalty = real (length top_values) / 5
           in Inr (mean_top * penalty))"

fun subtype_scores_of ::
  "(ustr \<times> member list) list \<Rightarrow> py_error + (ustr \<times> real) list" where
  "subtype_scores_of [] = Inr []"
| "subtype_scores_of ((st, members) # rest) =
     (case subtype_score members of
        Inl e \<Rightarrow> Inl e
      | Inr v \<Rightarrow>
          (case subtype_scores_of rest of
             Inl e \<Rightarrow> Inl e
           | Inr vs \<Rightarrow> Inr ((st, v) # vs)))"

definition subtype_scores :: "member list \<Rightarrow> py_error + (ustr \<times> real) list" where
  "subtype_scores cluster_members = subtype_scores_of (subtype_groups cluster_members)"

text \<open>\<^verbatim>\<open>max(d, key=d.get)\<close>: the first key, in insertion order, with the largest value.\<close>

fun py_max_key :: "ustr \<times> real \<Rightarrow> (ustr \<times> real) list \<Rightarrow> ustr \<times> real" where
  "py_max_key best [] = best"
| "py_max_key best (x # xs) = py_max_key (if snd best < snd x then x else best) xs"

definition second_best_of :: "(ustr \<times> real) list \<Rightarrow> real \<Rightarrow> ustr option" where
  "second_best_of scores second_best_score =
     map_option fst (find (\<lambda>kv. \<bar>snd kv - second_best_score\<bar> < 1 / 1000000) scores)"

definition choose_subtype_weighted_voting ::
  "(match \<Rightarrow> real) \<Rightarrow> string \<Rightarrow> nat \<Rightarrow> match list \<Rightarrow> real list list \<Rightarrow> real
     \<Rightarrow> py_error + (ustr \<times> real \<times> real \<times> ustr option)" where
  "choose_subtype_weighted_voting get_best_metric_value winning_type k_star ms gamma resp_cut =
     (case collect_members get_best_metric_value gamma k_star resp_cut 0 ms of
        Inl e \<Rightarrow> Inl e
      | Inr cluster_members \<Rightarrow>
          if cluster_members = [] then Inr (unknown_label, 0, 0, None)
          else
            (case subtype_scores cluster_members of
               Inl e \<Rightarrow> Inl e
             | Inr scores \<Rightarrow>
                 if scores = [] then Inr (unknown_label, 0, 0, None)
                 else
                   let best = py_max_key (hd scores) (tl scores);
                       best_subtype = fst best;
                       best_score = snd best;
                       sorted_scores = sort_reverse (\<lambda>v. v) (map snd scores);
                       margin_over_second =
                         sorted_scores ! 0
                           - (if 1 < length sorted_scores then sorted_scores ! 1 else 0);
                       total_score = sum_list (map snd scores);
                       confidence = (if 0 < total_score then best_score / total_score else 0);
                       relative_margin_pct =
                         (if 1 < length sorted_scores \<and> 0 < sorted_scores ! 1
                          then margin_over_second / (sorted_scores ! 1) * 100 else 0);
                       second_best_subtype =
                         (if 1 < length sorted_scores
                          then second_best_of scores (sorted_scores ! 1) else None)
                   in Inr (best_subtype, confidence, relative_margin_pct,
                           second_best_subtype)))"

subsection \<open>Clusters of one type: \<^verbatim>\<open>_perform_direct_gmm_clustering\<close> and its fallback\<close>

record cluster_info =
  ci_id :: nat
  ci_matches :: "match list"
  ci_size :: nat
  ci_redshift_span :: real
  ci_redshift_quality :: quality
  ci_cluster_method :: string

record type_result =
  optimal_n_clusters :: nat
  final_n_clusters :: nat
  clusters :: "cluster_info list"

text \<open>
  \<^verbatim>\<open>_create_single_cluster_result\<close>. \<^verbatim>\<open>np.min\<close> of an empty array raises
  \<^verbatim>\<open>ValueError\<close>.
\<close>

definition create_single_cluster_result ::
  "match list \<Rightarrow> real list \<Rightarrow> real \<Rightarrow> py_error + type_result" where
  "create_single_cluster_result type_matches redshifts quality_threshold =
     (let z_span = (if 1 < length redshifts
                  then Max (set redshifts) - Min (set redshifts) else 0);
          q = (if z_span \<le> quality_threshold then tight
               else if z_span \<le> quality_threshold * 2 then moderate
               else loose)
      in if redshifts = [] then Inl ValueError
         else Inr \<lparr>optimal_n_clusters = 1, final_n_clusters = 1,
                   clusters = [\<lparr>ci_id = 0, ci_matches = type_matches,
                                 ci_size = length type_matches, ci_redshift_span = z_span,
                                 ci_redshift_quality = q,
                                 ci_cluster_method = ''single_cluster''\<rparr>]\<rparr>)"

text \<open>
  The body of the loop over \<^verbatim>\<open>cluster_id\<close> in the mixture path: the matches whose
  label is \<open>cluster_id\<close>; an empty cluster is skipped.
\<close>

definition gmm_cluster_info :: "match list \<Rightarrow> nat list \<Rightarrow> real \<Rightarrow> nat \<Rightarrow> cluster_info option" where
  "gmm_cluster_info type_matches labels quality_threshold cid =
     (let cluster_matches = map fst (filter (\<lambda>ml. snd ml = cid) (zip type_matches labels));
          cluster_redshifts = map redshift cluster_matches
      in if length cluster_matches < 1 then None
         else
           let z_span = Max (set cluster_redshifts) - Min (set cluster_redshifts);
               q = (if z_span \<le> quality_threshold then tight
                    else if z_span \<le> quality_threshold * 2 then moderate
                    else if z_span \<le> quality_threshold * 4 then loose
                    else very_loose)
           in Some \<lparr>ci_id = cid, ci_matches = cluster_matches,
                     ci_size = length cluster_matches, ci_redshift_span = z_span,
                     ci_redshift_quality = q, ci_cluster_method = ''direct_gmm''\<rparr>)"

text \<open>
  \<^verbatim>\<open>_perform_direct_gmm_clustering\<close>. Fitting the mixtures and choosing the one of
  minimal BIC is scikit-learn's work: \<open>fit_predict redshifts max_clusters_actual\<close> stands
  for it and returns the number of components and the label of every match, or raises.
  A match without \<^verbatim>\<open>rlap\<close> raises \<^verbatim>\<open>KeyError\<close>. The function catches every exception
  and returns a dictionary with \<^verbatim>\<open>success = False\<close>, which is \<open>Inl\<close> here.
\<close>

definition perform_direct_gmm_clustering_of_type ::
  "(real list \<Rightarrow> nat \<Rightarrow> py_error + nat \<times> nat list) \<Rightarrow> match list \<Rightarrow> nat \<Rightarrow> real
     \<Rightarrow> py_error + type_result" where
  "perform_direct_gmm_clustering_of_type fit_predict type_matches max_clusters quality_threshold =
     (let redshifts = map redshift type_matches;
          n_matches = length type_matches;
          max_clusters_actual = min max_clusters (n_matches div 2 + 1)
      in if \<not> list_all (\<lambda>m. rlap m \<noteq> None) type_matches then Inl KeyError
         else if max_clusters_actual < 2
         then create_single_cluster_result type_matches redshifts quality_threshold
         else
           (case fit_predict redshifts max_clusters_actual of
              Inl e \<Rightarrow> Inl e
            | Inr (optimal_n, labels) \<Rightarrow>
                let final_clusters =
                      List.map_filter (gmm_cluster_info type_matches labels quality_threshold)
                        [0 ..< optimal_n]
                in Inr \<lparr>optimal_n_clusters = optimal_n,
                         final_n_clusters = length final_clusters,
                         clusters = final_clusters\<rparr>))"

text \<open>The quality rule of the specification, for comparison.\<close>

definition spec_redshift_quality :: "real \<Rightarrow> real \<Rightarrow> quality" where
  "spec_redshift_quality z_span q =
     (if z_span \<le> q then tight
      else if z_span \<le> 2 * q then moderate
      else if z_span \<le> 4 * q then loose
      else very_loose)"

definition quality_summary :: "type_result \<Rightarrow> (real \<times> quality) list" where
  "quality_summary r = map (\<lambda>c. (ci_redshift_span c, ci_redshift_quality c)) (clusters r)"

subsection \<open>Example inputs\<close>

text \<open>The label \<^verbatim>\<open>'norm'\<close>.\<close>

definition norm_label :: ustr where
  "norm_label = [0x6E, 0x6F, 0x72, 0x6D]"

definition example_match :: "real \<Rightarrow> match" where
  "example_match v =
     \<lparr>redshift = 1 / 100, rlap = Some v, rlap_cos = Some v, template_subtype = Some norm_label\<rparr>"

text \<open>A candidate as \<^verbatim>\<open>perform_direct_gmm_clustering\<close> creates it, before scoring.\<close>

definition example_candidate :: "string \<Rightarrow> match list \<Rightarrow> cluster" where
  "example_candidate ty ms =
     \<lparr>type_name = ty, cluster_id = 0, matches = ms, size_field = length ms,
      redshift_span = 0, redshift_quality = tight, top_5_values = [], top_5_mean = 0,
      penalty_factor = 1, penalized_score = 0, composite_score = 0\<rparr>"

text \<open>Two candidates with the same penalized score; the second is larger.\<close>

definition tie_candidates :: "cluster list" where
  "tie_candidates =
     [example_candidate ''II'' (map example_match [10, 10, 10, 10, 10]),
      example_candidate ''Ia'' (map example_match [10, 10, 10, 10, 10, 10])]"

text \<open>A candidate with three matches, of metric 12, 9 and 6.\<close>

definition three_member_candidate :: cluster where
  "three_member_candidate = example_candidate ''Ib'' (map example_match [9, 12, 6])"

definition cluster_summary :: "cluster \<Rightarrow> string \<times> nat \<times> real" where
  "cluster_summary c = (type_name c, size_field c, penalized_score c)"

definition score_summary :: "cluster_score \<Rightarrow> string \<times> nat \<times> real" where
  "score_summary s = (info_cluster_type s, info_cluster_size s, info_penalized_score s)"

text \<open>Four members of one subtype, each with metric 10, all in component 0.\<close>

definition four_matches :: "match list" where
  "four_matches = map example_match [10, 10, 10, 10]"

definition four_gamma :: "real list list" where
  "four_gamma = [[1], [1], [1], [1]]"

definition four_members :: "member list" where
  "four_members =
     [\<lparr>subtype = norm_label, metric_value = 10, cluster_membership = 1\<rparr>,
      \<lparr>subtype = norm_label, metric_value = 10, cluster_membership = 1\<rparr>,
      \<lparr>subtype = norm_label, metric_value = 10, cluster_membership = 1\<rparr>,
      \<lparr>subtype = norm_label, metric_value = 10, cluster_membership = 1\<rparr>]"

text \<open>Two matches of one type, at redshifts 0 and 0.1.\<close>

definition wide_matches :: "match list" where
  "wide_matches = [(example_match 10)\<lparr>redshift := 0\<rparr>, (example_match 8)\<lparr>redshift := 1 / 10\<rparr>]"

text \<open>A mixture fit that is never reached when \<open>max_clusters = 1\<close>.\<close>

definition no_fit :: "real list \<Rightarrow> nat \<Rightarrow> py_error + nat \<times> nat list" where
  "no_fit redshifts k = Inl ValueError"

text \<open>A mixture fit that puts every match into component 0 of one.\<close>

definition one_component_fit :: "real list \<Rightarrow> nat \<Rightarrow> py_error + nat \<times> nat list" where
  "one_component_fit redshifts k = Inr (1, map (\<lambda>z. 0) redshifts)"

subsection \<open>Preprocessing: rounding, slices\<close>

text \<open>\<^verbatim>\<open>round(x)\<close> rounds halves to the even neighbour; \<^verbatim>\<open>int(x)\<close> truncates towards zero.\<close>

definition py_round :: "real \<Rightarrow> int" where
  "py_round x =
     (let f = \<lfloor>x\<rfloor>; d = x - of_int f
      in if d < 1 / 2 then f else if 1 / 2 < d then f + 1 else if even f then f else f + 1)"

definition py_int :: "real \<Rightarrow> int" where
  "py_int x = (if 0 \<le> x then \<lfloor>x\<rfloor> else \<lceil>x\<rceil>)"

text \<open>\<^verbatim>\<open>out[start : start + len(ramp)] *= ramp\<close>, for a slice that lies inside \<open>out\<close>.\<close>

definition mul_slice :: "real list \<Rightarrow> nat \<Rightarrow> real list \<Rightarrow> real list" where
  "mul_slice out start ramp =
     take start out
     @ map2 (*) (take (length ramp) (drop start out)) ramp
     @ drop (start + length ramp) out"

subsection \<open>\<^verbatim>\<open>apodize\<close>\<close>

text \<open>\<open>percent\<close> is \<open>None\<close> for Python's \<^verbatim>\<open>None\<close>.\<close>

definition apodize :: "real list \<Rightarrow> int \<Rightarrow> int \<Rightarrow> real option \<Rightarrow> real list" where
  "apodize arr n1 n2 percent =
     (if \<not> (0 \<le> n1 \<and> n1 \<le> n2 \<and> n2 < int (length arr)) then arr
      else
        (case percent of
           None \<Rightarrow> arr
         | Some pc \<Rightarrow>
             if pc \<le> 0 then arr
             else
               let valid_data_len = n2 - n1 + 1
               in if valid_data_len \<le> 0 then arr
                  else
                    let ns0 = py_round (of_int valid_data_len * pc / 100);
                        ns = min ns0 (py_int (of_int valid_data_len / 2))
                    in if ns < 1 then arr
                       else
                         let ramp =
                               (if ns = 1 then [0]
                                else map (\<lambda>k. 1 / 2 * (1 - cos (pi * real k / (of_int ns - 1))))
                                       [0 ..< nat ns])
                         in if int (length arr) < n1 + ns \<or> n2 - ns + 1 < 0 then arr
                            else mul_slice (mul_slice arr (nat n1) ramp)
                                   (nat (n2 - ns + 1)) (rev ramp)))"

text \<open>
  How the preprocessing dialog builds \<^verbatim>\<open>tapered_flux\<close> from the flattened spectrum:
  the taper is applied between the first and the last nonzero bin of the flattened
  spectrum, or over the whole array when every bin is zero. The dialog passes the
  constant 10.0 as percentage; it is a parameter here.
\<close>

definition tapered_flux_of :: "real list \<Rightarrow> real option \<Rightarrow> real list" where
  "tapered_flux_of flat_spectrum apodize_percent =
     (let nz = filter (\<lambda>i. flat_spectrum ! i \<noteq> 0) [0 ..< length flat_spectrum];
          l1 = (if nz \<noteq> [] then int (hd nz) else 0);
          l2 = (if nz \<noteq> [] then int (last nz) else int (length flat_spectrum) - 1)
      in apodize flat_spectrum l1 l2 apodize_percent)"

subsection \<open>Savitzky-Golay smoothing\<close>

text \<open>
  \<^verbatim>\<open>savgol_filter_fixed\<close>. The filter itself is \<^verbatim>\<open>scipy.signal.savgol_filter\<close>, a
  parameter here: it returns the filtered array or raises. Every exception it raises is
  caught and the input is returned.
\<close>

definition savgol_filter_fixed ::
  "(real list \<Rightarrow> int \<Rightarrow> int \<Rightarrow> py_error + real list) \<Rightarrow> real list \<Rightarrow> int \<Rightarrow> int \<Rightarrow> real list" where
  "savgol_filter_fixed savgol_filter data window_length polyorder =
     (if window_length < 3 then data
      else
        let w_odd = (if window_length mod 2 = 0 then window_length + 1 else window_length);
            w = min w_odd (int (length data))
        in if w < 3 then data
           else
             let p = min polyorder (w - 1)
             in (case savgol_filter data w p of Inr y \<Rightarrow> y | Inl e \<Rightarrow> data))"

definition np_diff :: "real list \<Rightarrow> real list" where
  "np_diff xs = map2 (\<lambda>a b. b - a) xs (tl xs)"

text \<open>
  The window that \<^verbatim>\<open>savgol_filter_wavelength\<close> asks for, in pixels, before it is
  limited to the data length: \<^verbatim>\<open>max(3, int(2 * sigma_angstrom / avg_dwl))\<close>, made odd.
\<close>

definition requested_window_pixels :: "real list \<Rightarrow> real \<Rightarrow> int" where
  "requested_window_pixels wave fwhm_angstrom =
     (let avg_dwl = np_mean (np_diff wave);
          sigma_angstrom = fwhm_angstrom / (235 / 100);
          w0 = max 3 (py_int (2 * sigma_angstrom / avg_dwl))
      in if w0 mod 2 = 0 then w0 + 1 else w0)"

text \<open>
  \<^verbatim>\<open>savgol_filter_wavelength\<close>. The mean of an empty difference array is NaN and a
  zero mean spacing gives an infinite quotient; \<^verbatim>\<open>int\<close> raises on both.
\<close>

definition savgol_filter_wavelength ::
  "(real list \<Rightarrow> int \<Rightarrow> int \<Rightarrow> py_error + real list) \<Rightarrow> real list \<Rightarrow> real list \<Rightarrow> real \<Rightarrow> int
     \<Rightarrow> py_error + real list" where
  "savgol_filter_wavelength savgol_filter wave data fwhm_angstrom polyorder =
     (if length data \<noteq> length wave then Inl ValueError
      else if fwhm_angstrom \<le> 0 then Inr data
      else if np_diff wave = [] then Inl ValueError
      else
        let avg_dwl = np_mean (np_diff wave)
        in if avg_dwl = 0 then Inl OverflowError
           else
             let w_odd = requested_window_pixels wave fwhm_angstrom;
                 w = min w_odd (int (length data))
             in if w < 3 then Inr data
                else
                  let p = min polyorder (w - 1)
                  in (case savgol_filter data w p of Inr y \<Rightarrow> Inr y | Inl e \<Rightarrow> Inr data))"

subsection \<open>A least-squares model of the library filter\<close>

text \<open>
  For an odd window not longer than the data and a polynomial order below the window,
  \<^verbatim>\<open>scipy.signal.savgol_filter\<close> (mode \<^verbatim>\<open>interp\<close>, the default) returns at every position
  the value of the least-squares polynomial fitted to a window of samples: the window
  centred on the position, or the first or last window near the ends. The definitions
  below compute that polynomial exactly, by the normal equations. For other arguments
  this instance answers \<^verbatim>\<open>ValueError\<close>; what the library does there depends on its version.
\<close>

text \<open>Gaussian elimination on an augmented matrix with nonzero pivots.\<close>

fun eliminate :: "real list list \<Rightarrow> real list list" where
  "eliminate [] = []"
| "eliminate (r # rs) =
     (let r' = map (\<lambda>x. x / hd r) r
      in r' # eliminate (map (\<lambda>s. tl (map2 (\<lambda>a b. b - hd s * a) r' s)) rs))"

fun back_substitute :: "real list list \<Rightarrow> real list" where
  "back_substitute [] = []"
| "back_substitute (r # rs) =
     (let xs = back_substitute rs
      in (last r - sum_list (map2 (*) (butlast (tl r)) xs)) # xs)"

text \<open>
  The value at \<open>t\<close> of the polynomial of degree \<open>p\<close> that fits the points
  \<open>(0, ys ! 0), (1, ys ! 1), \<dots>\<close> best in the least-squares sense.
\<close>

definition polyfit_eval :: "nat \<Rightarrow> real list \<Rightarrow> real \<Rightarrow> real" where
  "polyfit_eval p ys t =
     (let xs = map real [0 ..< length ys];
          row = (\<lambda>j. map (\<lambda>k. sum_list (map (\<lambda>x. x ^ (j + k)) xs)) [0 ..< Suc p]
                       @ [sum_list (map2 (\<lambda>x y. x ^ j * y) xs ys)]);
          coeffs = back_substitute (eliminate (map row [0 ..< Suc p]))
      in sum_list (map2 (\<lambda>c k. c * t ^ k) coeffs [0 ..< Suc p]))"

definition lsq_savgol_filter :: "real list \<Rightarrow> int \<Rightarrow> int \<Rightarrow> py_error + real list" where
  "lsq_savgol_filter x window_length polyorder =
     (if window_length < 1 \<or> even window_length \<or> int (length x) < window_length
         \<or> polyorder < 0 \<or> window_length \<le> polyorder
      then Inl ValueError
      else
        let n = length x; w = nat window_length; h = w div 2; p = nat polyorder
        in Inr (map (\<lambda>i. if i < h then polyfit_eval p (take w x) (real i)
                          else if n - h \<le> i
                          then polyfit_eval p (drop (n - w) x) (real (i - (n - w)))
                          else polyfit_eval p (take w (drop (i - h) x)) (real h))
                  [0 ..< n]))"

subsection \<open>The logarithmic grid and \<^verbatim>\<open>log_rebin\<close>\<close>

text \<open>
  The module globals \<^verbatim>\<open>NW\<close>, \<^verbatim>\<open>W0\<close>, \<^verbatim>\<open>W1\<close> and \<^verbatim>\<open>DWLOG\<close>. They exist only once
  \<^verbatim>\<open>init_wavelength_grid\<close> has run (their module-level definitions are commented out), so
  the state of the module is a \<open>grid option\<close>. The model is meant for grids with
  \<open>W0 > 0\<close> and \<open>DWLOG > 0\<close>, which is what \<^verbatim>\<open>init_wavelength_grid\<close> produces from
  \<open>0 < min_wave < max_wave\<close> and a positive number of points.
\<close>

record grid =
  NW :: nat
  W0 :: real
  W1 :: real
  DWLOG :: real

definition init_wavelength_grid :: "nat \<Rightarrow> real \<Rightarrow> real \<Rightarrow> grid" where
  "init_wavelength_grid num_points min_wave max_wave =
     \<lparr>NW = num_points, W0 = min_wave, W1 = max_wave,
      DWLOG = ln (max_wave / min_wave) / real num_points\<rparr>"

text \<open>Step 5: the pixel edges \<open>s[0 .. n]\<close> of \<open>n \<ge> 2\<close> samples.\<close>

definition pixel_edges :: "real list \<Rightarrow> real list" where
  "pixel_edges wave =
     (3 / 2 * wave ! 0 - 1 / 2 * wave ! 1)
     # map2 (\<lambda>a b. 1 / 2 * (a + b)) wave (tl wave)
     @ [3 / 2 * wave ! (length wave - 1) - 1 / 2 * wave ! (length wave - 2)]"

text \<open>Step 6: an edge in bin coordinates.\<close>

definition slog_of :: "grid \<Rightarrow> real \<Rightarrow> real" where
  "slog_of g x = ln (x / W0 g) / DWLOG g + 1"

text \<open>
  \<^verbatim>\<open>int(np.floor(slog))\<close>: the logarithm of a negative ratio is NaN and that of zero is
  minus infinity; \<^verbatim>\<open>int\<close> raises \<^verbatim>\<open>ValueError\<close> on the first and \<^verbatim>\<open>OverflowError\<close> on
  the second.
\<close>

definition floor_slog :: "grid \<Rightarrow> real \<Rightarrow> py_error + int" where
  "floor_slog g x =
     (if x / W0 g < 0 then Inl ValueError
      else if x / W0 g = 0 then Inl OverflowError
      else Inr \<lfloor>slog_of g x\<rfloor>)"

text \<open>
  The inner loop over the bins \<open>i\<close> (counted from 1) of one source pixel. \<open>fl\<close> is
  \<^verbatim>\<open>fsrc[l]\<close>, \<open>None\<close> when \<open>l\<close> is outside \<^verbatim>\<open>fsrc\<close>, which raises when it is read.
\<close>

fun accumulate_bins ::
  "real \<Rightarrow> real \<Rightarrow> real option \<Rightarrow> real \<Rightarrow> int list \<Rightarrow> real list \<Rightarrow> py_error + real list" where
  "accumulate_bins s0log s1log fl dl [] fdest = Inr fdest"
| "accumulate_bins s0log s1log fl dl (i # js) fdest =
     (let alen = min s1log (of_int i + 1) - max s0log (of_int i)
      in if alen \<le> 0 then accumulate_bins s0log s1log fl dl js fdest
         else
           (case fl of
              None \<Rightarrow> Inl IndexError
            | Some f \<Rightarrow>
                accumulate_bins s0log s1log fl dl js
                  (fdest[nat (i - 1) :=
                     fdest ! nat (i - 1) + f * (alen / (s1log - s0log)) * dl])))"

text \<open>Step 7: the loop over the source pixels \<open>l\<close>.\<close>

fun rebin_pixels ::
  "grid \<Rightarrow> real list \<Rightarrow> real list \<Rightarrow> nat list \<Rightarrow> real list \<Rightarrow> py_error + real list" where
  "rebin_pixels g s fsrc [] fdest = Inr fdest"
| "rebin_pixels g s fsrc (l # ls) fdest =
     (case floor_slog g (s ! l) of
        Inl e \<Rightarrow> Inl e
      | Inr f0 \<Rightarrow>
          (case floor_slog g (s ! Suc l) of
             Inl e \<Rightarrow> Inl e
           | Inr f1 \<Rightarrow>
               let s0log = slog_of g (s ! l);
                   s1log = slog_of g (s ! Suc l);
                   dl = s ! Suc l - s ! l;
                   i0 = max 1 f0;
                   i1 = min (int (NW g)) f1
               in (case accumulate_bins s0log s1log
                          (if l < length fsrc then Some (fsrc ! l) else None) dl [i0 .. i1]
                          fdest of
                     Inl e \<Rightarrow> Inl e
                   | Inr fd \<Rightarrow> rebin_pixels g s fsrc ls fd)))"

text \<open>Step 8: the width of bin \<open>j\<close> (counted from 0).\<close>

definition bin_width :: "grid \<Rightarrow> nat \<Rightarrow> real" where
  "bin_width g j =
     W0 g * exp ((real j + 1 - 1 / 2) * DWLOG g) - W0 g * exp ((real j - 1 / 2) * DWLOG g)"

definition log_rebin :: "grid option \<Rightarrow> real list \<Rightarrow> real list \<Rightarrow> py_error + real list \<times> real list" where
  "log_rebin grid_state wave fsrc =
     (case grid_state of
        None \<Rightarrow> Inl NameError
      | Some g \<Rightarrow>
          if length wave < 2 then Inl IndexError
          else
            let nlog = NW g;
                log_wave = map (\<lambda>j. W0 g * exp ((real j + 1 / 2) * DWLOG g)) [0 ..< nlog]
            in (case rebin_pixels g (pixel_edges wave) fsrc [0 ..< length wave]
                       (replicate nlog 0) of
                  Inl e \<Rightarrow> Inl e
                | Inr fdest \<Rightarrow>
                    Inr (log_wave, map2 (\<lambda>f j. f / bin_width g j) fdest [0 ..< nlog])))"

text \<open>
  Bin \<open>j\<close> receives flux from the wavelengths between \<open>W0 * exp (j * DWLOG)\<close> and
  \<open>W0 * exp ((j + 1) * DWLOG)\<close>. It lies outside the coverage of the input when that
  interval ends at or before the first pixel edge or starts at or after the last one.
\<close>

definition bin_outside_coverage :: "grid \<Rightarrow> real list \<Rightarrow> nat \<Rightarrow> bool" where
  "bin_outside_coverage g wave j =
     (W0 g * exp ((real j + 1) * DWLOG g) \<le> pixel_edges wave ! 0
      \<or> pixel_edges wave ! length wave \<le> W0 g * exp (real j * DWLOG g))"

definition default_grid :: grid where
  "default_grid = init_wavelength_grid 1024 2500 10000"

subsection \<open>\<^verbatim>\<open>fit_continuum_spline\<close>\<close>

text \<open>Step 1: the two \<^verbatim>\<open>while\<close> loops that chop the ends.\<close>

function chop_left :: "real list \<Rightarrow> nat \<Rightarrow> nat \<Rightarrow> nat" where
  "chop_left flux l1 nuked =
     (if l1 + 1 < length flux \<and> (flux ! l1 \<le> 0 \<or> nuked < 1)
      then chop_left flux (l1 + 1) (if 0 < flux ! l1 then nuked + 1 else nuked)
      else l1)"
  by pat_completeness auto
termination
  by (relation "measure (\<lambda>(flux, l1, nuked). length flux - l1)") auto

function chop_right :: "real list \<Rightarrow> nat \<Rightarrow> nat \<Rightarrow> nat" where
  "chop_right flux l2 nuked =
     (if 1 < l2 \<and> (flux ! l2 \<le> 0 \<or> nuked < 1)
      then chop_right flux (l2 - 1) (if 0 < flux ! l2 then nuked + 1 else nuked)
      else l2)"
  by pat_completeness auto
termination
  by (relation "measure (\<lambda>(flux, l2, nuked). l2)") auto

declare chop_left.simps [simp del] chop_right.simps [simp del]

text \<open>\<open>l2 - l1\<close> after chopping.\<close>

definition usable_range :: "real list \<Rightarrow> int" where
  "usable_range flux =
     int (chop_right flux (length flux - 1) 0) - int (chop_left flux 0 0)"

text \<open>
  Step 2: the loop that places the knots. The state is the list of knots so far and the
  running \<open>nave\<close>, \<open>sum_x\<close>, \<open>sum_y\<close>.
\<close>

fun place_knots ::
  "real list \<Rightarrow> nat \<Rightarrow> nat \<Rightarrow> int \<Rightarrow> int \<Rightarrow> nat list \<Rightarrow> (real \<times> real) list
     \<Rightarrow> real \<Rightarrow> real \<Rightarrow> real \<Rightarrow> (real \<times> real) list" where
  "place_knots flux l1 l2 kwidth istart [] knots nave sum_x sum_y = knots"
| "place_knots flux l1 l2 kwidth istart (i # rest) knots nave sum_x sum_y =
     (let inside = (l1 < i \<and> i < l2 \<and> 0 < flux ! i);
          nave' = (if inside then nave + 1 else nave);
          sum_x' = (if inside then sum_x + (real i - 1 / 2) else sum_x);
          sum_y' = (if inside then sum_y + log 10 (flux ! i) else sum_y)
      in if (int i - istart) mod kwidth = 0 \<and> 0 < nave'
         then place_knots flux l1 l2 kwidth istart rest
                (knots @ [(sum_x' / nave', sum_y' / nave')]) 0 0 0
         else place_knots flux l1 l2 kwidth istart rest knots nave' sum_x' sum_y')"

text \<open>The knots placed for a flux array that passed the first three checks.\<close>

definition placed_knots :: "real list \<Rightarrow> int \<Rightarrow> int \<Rightarrow> (real \<times> real) list" where
  "placed_knots flux knotnum izoff =
     (let n = length flux;
          kwidth = int n div knotnum;
          istart = (if 0 < izoff then izoff mod kwidth - kwidth else 0)
      in place_knots flux (chop_left flux 0 0) (chop_right flux (n - 1) 0) kwidth istart
           [0 ..< n] [] 0 0 0)"

text \<open>
  Step 3: the tridiagonal system for the second derivatives. \<open>forward_sweep\<close> is the
  loop that fills \<open>u\<close> and \<open>z\<close> from index 1 on; \<open>back_sweep\<close> is the loop that fills
  \<open>y2\<close> downwards.
\<close>

fun forward_sweep :: "real \<Rightarrow> real \<Rightarrow> real list \<Rightarrow> real list \<Rightarrow> real list \<Rightarrow> (real \<times> real) list" where
  "forward_sweep u z (a # as) (c # cs) (r # rs) =
     (let li = c / u; u' = a - li * c; z' = r - li * z
      in (u', z') # forward_sweep u' z' as cs rs)"
| "forward_sweep u z as cs rs = []"

fun back_sweep :: "((real \<times> real) \<times> real) list \<Rightarrow> real \<Rightarrow> real list" where
  "back_sweep [] y_last = [y_last]"
| "back_sweep (((u, z), c) # rows) y_last =
     (let rest = back_sweep rows y_last in ((z - c * hd rest) / u) # rest)"

definition spline_y2 :: "real list \<Rightarrow> real list \<Rightarrow> py_error + real list" where
  "spline_y2 xknot yknot =
     (let h = np_diff xknot;
          inner = butlast (tl yknot);
          rhs = map2 (\<lambda>p q. 6 * (p - q))
                  (map2 (/) (map2 (-) (drop 2 yknot) inner) (tl h))
                  (map2 (/) (map2 (-) inner (butlast (butlast yknot))) (butlast h));
          A = map2 (\<lambda>a b. 2 * (a + b)) (butlast h) (tl h);
          C = tl h
      in if A = [] \<or> rhs = [] then Inl IndexError
         else
           let uz = (hd A, hd rhs) # forward_sweep (hd A) (hd rhs) (tl A) C (tl rhs)
           in Inr (0 # back_sweep (zip (butlast uz) C) (snd (last uz) / fst (last uz)) @ [0]))"

text \<open>
  Step 4: the continuum at bin \<open>j\<close>. \<^verbatim>\<open>np.searchsorted\<close> on the increasing knot
  positions counts the knots below \<open>xp\<close>.
\<close>

definition spline_cont :: "real list \<Rightarrow> real list \<Rightarrow> real list \<Rightarrow> nat \<Rightarrow> real" where
  "spline_cont xknot yknot y2 j =
     (let xp = real j - 1 / 2;
          nk = length xknot;
          idx = nat (max 0 (min (int nk - 2)
                  (int (length (takeWhile (\<lambda>x. x < xp) xknot)) - 1)));
          h_i = xknot ! (idx + 1) - xknot ! idx;
          a = (xknot ! (idx + 1) - xp) / h_i;
          b = (xp - xknot ! idx) / h_i;
          logc = a * yknot ! idx + b * yknot ! (idx + 1)
                 + ((a ^ 3 - a) * y2 ! idx + (b ^ 3 - b) * y2 ! (idx + 1)) * h_i ^ 2 / 6
      in 10 powr logc)"

definition fit_continuum_spline ::
  "real list \<Rightarrow> int \<Rightarrow> int \<Rightarrow> py_error + real list \<times> real list" where
  "fit_continuum_spline flux knotnum izoff =
     (let n = length flux
      in if n < 10 \<or> knotnum < 3 then Inr (replicate n 0, replicate n 1)
         else if usable_range flux < 3 * knotnum then Inr (replicate n 0, replicate n 1)
         else if int n div knotnum = 0 then Inl ZeroDivisionError
         else
           let knots = placed_knots flux knotnum izoff
           in if length knots < 3 then Inr (replicate n 0, replicate n 1)
              else
                let xknot = map fst knots; yknot = map snd knots
                in (case spline_y2 xknot yknot of
                      Inl e \<Rightarrow> Inl e
                    | Inr y2 \<Rightarrow>
                        let cont = map (spline_cont xknot yknot y2) [0 ..< n];
                            flat = map2 (\<lambda>f c. if 0 < f \<and> 0 < c then f / c - 1 else 0)
                                     flux cont
                        in Inr (flat, cont)))"

text \<open>
  \<^verbatim>\<open>fit_continuum\<close> with \<^verbatim>\<open>method="spline"\<close>, the way \<^verbatim>\<open>flatten_spectrum\<close> calls it
  (default \<open>knotnum = 13\<close>, \<open>izoff = 0\<close>): the spline fit, then everything outside the
  first and last positive bin of the input set to zero.
\<close>

definition zero_outside :: "nat \<Rightarrow> nat \<Rightarrow> real list \<Rightarrow> real list" where
  "zero_outside i0 i1 xs = map (\<lambda>i. if i < i0 \<or> i1 < i then 0 else xs ! i) [0 ..< length xs]"

definition fit_continuum_spline_method ::
  "real list \<Rightarrow> int \<Rightarrow> int \<Rightarrow> py_error + real list \<times> real list" where
  "fit_continuum_spline_method flux knotnum izoff =
     (case fit_continuum_spline flux knotnum izoff of
        Inl e \<Rightarrow> Inl e
      | Inr (flat, cont) \<Rightarrow>
          let nz = filter (\<lambda>i. 0 < flux ! i) [0 ..< length flux]
          in if nz \<noteq> []
             then Inr (zero_outside (hd nz) (last nz) flat, zero_outside (hd nz) (last nz) cont)
             else Inr (flat, cont))"

subsection \<open>\<^verbatim>\<open>flatten_spectrum\<close>\<close>

text \<open>
  The parameters of \<^verbatim>\<open>log_rebin(wave, fsrc)\<close>. A call with two positional arguments
  and keyword arguments raises \<^verbatim>\<open>TypeError\<close> when a keyword is not a parameter name
  (unexpected keyword argument) and also when it is one (multiple values for the
  argument); only without keywords the body runs.
\<close>

definition log_rebin_parameters :: "string list" where
  "log_rebin_parameters = [''wave'', ''fsrc'']"

definition call_log_rebin ::
  "grid option \<Rightarrow> real list \<Rightarrow> real list \<Rightarrow> (string \<times> int) list
     \<Rightarrow> py_error + real list \<times> real list" where
  "call_log_rebin grid_state wave fsrc keywords =
     (if list_ex (\<lambda>k. k \<notin> set log_rebin_parameters) (map fst keywords) then Inl TypeError
      else if keywords \<noteq> [] then Inl TypeError
      else log_rebin grid_state wave fsrc)"

record flattened =
  out_wave :: "real list"
  out_flux :: "real list"
  out_continuum :: "real list"
  original_wave :: "real list"
  original_flux :: "real list"

definition flatten_spectrum ::
  "(real list \<Rightarrow> int \<Rightarrow> int \<Rightarrow> py_error + real list) \<Rightarrow> grid option \<Rightarrow> real list \<Rightarrow> real list
     \<Rightarrow> real \<Rightarrow> string \<Rightarrow> real \<Rightarrow> int \<Rightarrow> py_error + flattened" where
  "flatten_spectrum savgol_filter grid_state wave flux apodize_percent median_filter_type
       median_filter_value num_points =
     (let flux1 =
            (if 0 < apodize_percent
             then
               let n_points = length flux;
                   n_apodize = py_int (real n_points * apodize_percent / 100)
               in apodize flux n_apodize n_apodize (Some apodize_percent)
             else flux);
          smoothed =
            (if median_filter_type \<noteq> ''none'' \<and> 0 < median_filter_value
             then
               if median_filter_type = ''pixel''
               then Inr (savgol_filter_fixed savgol_filter flux1
                           (max 3 (py_int median_filter_value)) 3)
               else if median_filter_type = ''angstrom''
               then savgol_filter_wavelength savgol_filter wave flux1 median_filter_value 3
               else Inr flux1
             else Inr flux1)
      in (case smoothed of
            Inl e \<Rightarrow> Inl e
          | Inr flux2 \<Rightarrow>
              (case call_log_rebin grid_state wave flux2 [(''num_points'', num_points)] of
                 Inl e \<Rightarrow> Inl e
               | Inr (log_wave, log_flux) \<Rightarrow>
                   (case fit_continuum_spline_method log_flux 13 0 of
                      Inl e \<Rightarrow> Inl e
                    | Inr (flat_flux, continuum) \<Rightarrow>
                        Inr \<lparr>out_wave = log_wave, out_flux = flat_flux,
                             out_continuum = continuum, original_wave = wave,
                             original_flux = flux2\<rparr>))))"

subsection \<open>The \<^verbatim>\<open>identify\<close> command: \<^verbatim>\<open>main\<close>\<close>

datatype stream = Stdout | Stderr

text \<open>
  The exceptions that the handlers of \<^verbatim>\<open>main\<close> tell apart: \<^verbatim>\<open>FileNotFoundError\<close> and
  every other subclass of \<^verbatim>\<open>Exception\<close>, each with its message.
\<close>

datatype exc = FileNotFoundError string | OtherException string

record snid_result =
  success :: bool
  error_message :: "string option"

text \<open>
  What \<^verbatim>\<open>main\<close> meets outside itself: the arguments it reads, whether the spectrum file
  exists, and for every call that leaves the module what it returned or raised.
  \<open>progress_output\<close> are the lines the progress indicator printed while the analysis
  ran, \<open>finish_suffix\<close> the template count and time it adds to its last line,
  \<open>success_report\<close> the summary and \<^verbatim>\<open>Results saved\<close> lines of the success path, all on
  standard output. Records of the logging module are not part of the output modelled.
\<close>

record identify_env =
  verbose :: bool
  spectrum_path :: string
  spectrum_name :: string
  spectrum_exists :: bool
  logging_setup :: "exc option"
  templates_dir :: "exc + string"
  templates_messages :: "string list"
  preprocessing :: "exc option"
  progress_output :: "string list"
  finish_suffix :: string
  analysis :: "exc + snid_result option"
  saving :: "exc option"
  success_report :: "string list"
  traceback_text :: string

text \<open>The two handlers at the end of \<^verbatim>\<open>main\<close>.\<close>

definition on_exception :: "identify_env \<Rightarrow> (stream \<times> string) list \<Rightarrow> exc \<Rightarrow> int \<times> (stream \<times> string) list" where
  "on_exception env out e =
     (case e of
        FileNotFoundError m \<Rightarrow> (1, out @ [(Stderr, ''[ERROR] File not found - '' @ m)])
      | OtherException m \<Rightarrow>
          (1, out @ [(Stderr, ''[ERROR] Error during SNID identification: '' @ m)]
                 @ (if verbose env then [(Stderr, traceback_text env)] else [])))"

text \<open>The UTF-8 bytes of the magnifying glass that starts the first progress line.\<close>

definition magnifier :: string where
  "magnifier = [CHR 0xF0, CHR 0x9F, CHR 0x94, CHR 0x8D]"

text \<open>\<^verbatim>\<open>CLIProgressIndicator.finish\<close>\<close>

definition finish_line :: "identify_env \<Rightarrow> string \<Rightarrow> string" where
  "finish_line env message = CHR 0x0D # ''[SUCCESS] '' @ message @ finish_suffix env"

text \<open>The result is the exit code and everything printed, in order.\<close>

definition main :: "identify_env \<Rightarrow> int \<times> (stream \<times> string) list" where
  "main env =
     (case logging_setup env of
        Some e \<Rightarrow> on_exception env [] e
      | None \<Rightarrow>
          if \<not> spectrum_exists env
          then (1, [(Stderr, ''[ERROR] Spectrum file not found: '' @ spectrum_path env)])
          else
            (case templates_dir env of
               Inl (FileNotFoundError m) \<Rightarrow> (1, [(Stderr, ''[ERROR] '' @ m)])
             | Inl (OtherException m) \<Rightarrow> on_exception env [] (OtherException m)
             | Inr dir \<Rightarrow>
                 let out1 = map (Pair Stdout) (templates_messages env)
                 in (case preprocessing env of
                       Some e \<Rightarrow> on_exception env out1 e
                     | None \<Rightarrow>
                         let out2 = out1
                               @ (if verbose env then []
                                  else (Stdout, magnifier @ '' Starting SNID analysis...'')
                                       # map (Pair Stdout) (progress_output env))
                         in (case analysis env of
                               Inl e \<Rightarrow> on_exception env out2 e
                             | Inr result \<Rightarrow>
                                 let ok = (case result of None \<Rightarrow> False | Some r \<Rightarrow> success r);
                                     out3 = out2
                                       @ (if verbose env then []
                                          else [(Stdout, finish_line env
                                                   (if ok then ''Analysis complete''
                                                    else ''Analysis failed'')),
                                                (Stdout, '''')])
                                 in if \<not> ok
                                    then (1, out3
                                            @ [(Stdout, CHR 0x0A
                                                 # ''[ERROR] SNID analysis failed for ''
                                                 @ spectrum_name env)]
                                            @ (case result of
                                                 None \<Rightarrow> []
                                               | Some r \<Rightarrow>
                                                   (case error_message r of
                                                      None \<Rightarrow> []
                                                    | Some m \<Rightarrow>
                                                        [(Stdout, ''   Error: '' @ m)])))
                                    else
                                      (case saving env of
                                         Some e \<Rightarrow> on_exception env out3 e
                                       | None \<Rightarrow>
                                           (0, out3
                                               @ map (Pair Stdout) (success_report env)))))))"

definition stderr_lines :: "(stream \<times> string) list \<Rightarrow> string list" where
  "stderr_lines out = map snd (filter (\<lambda>entry. fst entry = Stderr) out)"

definition stdout_lines :: "(stream \<times> string) list \<Rightarrow> string list" where
  "stdout_lines out = map snd (filter (\<lambda>entry. fst entry = Stdout) out)"

text \<open>
  A run in which the spectrum and the templates are found and the analysis returns a
  result with \<^verbatim>\<open>success = False\<close>.
\<close>

definition analysis_failed_env :: identify_env where
  "analysis_failed_env =
     \<lparr>verbose = False, spectrum_path = ''sn2020abc.txt'', spectrum_name = ''sn2020abc'',
      spectrum_exists = True, logging_setup = None, templates_dir = Inr ''templates'',
      templates_messages = [], preprocessing = None, progress_output = [],
      finish_suffix = '''', 
      analysis = Inr (Some \<lparr>success = False, error_message = Some ''no templates''\<rparr>),
      saving = None, success_report = [], traceback_text = ''''\<rparr>"

section \<open>Properties\<close>

subsection \<open>Stable descending sort\<close>

lemma set_sort_reverse: "set (sort_reverse f xs) = set xs"
  by (simp add: sort_reverse_def)

lemma length_sort_reverse: "length (sort_reverse f xs) = length xs"
  by (simp add: sort_reverse_def)

lemma sort_reverse_Nil_iff: "sort_reverse f xs = [] \<longleftrightarrow> xs = []"
  using length_sort_reverse [of f xs] by (metis length_0_conv)

lemma last_sort_key_max:
  assumes "zs \<noteq> []"
  shows "\<forall>z \<in> set zs. f z \<le> f (last (sort_key f zs))"
proof -
  let ?s = "sort_key f zs"
  have ne: "?s \<noteq> []" using assms by (metis length_0_conv length_sort)
  have srt: "sorted (map f ?s)" by simp
  have "\<forall>z \<in> set ?s. f z \<le> f (last ?s)"
  proof
    fix z assume "z \<in> set ?s"
    then obtain i where i: "i < length ?s" "?s ! i = z" by (metis in_set_conv_nth)
    have "map f ?s ! i \<le> map f ?s ! (length ?s - 1)"
      using srt i ne by (intro sorted_nth_mono) auto
    then show "f z \<le> f (last ?s)" using i ne by (simp add: last_conv_nth)
  qed
  then show ?thesis by simp
qed

lemma last_filter_keep:
  "xs \<noteq> [] \<Longrightarrow> P (last xs) \<Longrightarrow> last (filter P xs) = last xs"
  by (induction xs) (auto simp: filter_empty_conv)

lemma last_sort_key_stable:
  assumes "zs \<noteq> []"
  shows "last (sort_key f zs) = last (filter (\<lambda>y. f y = f (last (sort_key f zs))) zs)"
proof -
  let ?s = "sort_key f zs"
  let ?k = "f (last ?s)"
  have ne: "?s \<noteq> []" using assms by (metis length_0_conv length_sort)
  have "last (filter (\<lambda>y. f y = ?k) ?s) = last ?s"
    using ne by (intro last_filter_keep) simp_all
  then show ?thesis by (simp add: sort_key_stable)
qed

lemma hd_sort_reverse_filter:
  assumes "xs \<noteq> []"
  shows "hd (sort_reverse f xs) = hd (filter (\<lambda>y. f y = f (hd (sort_reverse f xs))) xs)"
proof -
  have ne: "sort_key f (rev xs) \<noteq> []" using assms by (metis length_0_conv length_sort length_rev)
  have h: "hd (sort_reverse f xs) = last (sort_key f (rev xs))"
    using ne by (simp add: sort_reverse_def hd_rev)
  have "last (sort_key f (rev xs)) = last (filter (\<lambda>y. f y = f (last (sort_key f (rev xs)))) (rev xs))"
    using assms by (intro last_sort_key_stable) simp
  also have "\<dots> = last (rev (filter (\<lambda>y. f y = f (last (sort_key f (rev xs)))) xs))"
    by (simp add: rev_filter)
  also have "\<dots> = hd (filter (\<lambda>y. f y = f (last (sort_key f (rev xs)))) xs)"
    by (simp add: last_rev)
  finally show ?thesis using h by simp
qed

lemma hd_sort_reverse_max:
  assumes "xs \<noteq> []"
  shows "\<forall>x \<in> set xs. f x \<le> f (hd (sort_reverse f xs))"
proof -
  have ne: "sort_key f (rev xs) \<noteq> []" using assms by (metis length_0_conv length_sort length_rev)
  have h: "hd (sort_reverse f xs) = last (sort_key f (rev xs))"
    using ne by (simp add: sort_reverse_def hd_rev)
  have "\<forall>z \<in> set (rev xs). f z \<le> f (last (sort_key f (rev xs)))"
    using assms by (intro last_sort_key_max) simp
  then show ?thesis using h by simp
qed

lemma first_max_index:
  assumes filt: "w = hd (filter (\<lambda>y. f y = (k::'k::linorder)) xs)"
    and kw: "k = f w"
    and win: "w \<in> set xs"
    and mx: "\<forall>x \<in> set xs. f x \<le> k"
  shows "\<exists>i < length xs. w = xs ! i
           \<and> (\<forall>j < length xs. f (xs ! j) \<le> f (xs ! i))
           \<and> (\<forall>j < i. f (xs ! j) < f (xs ! i))"
proof -
  have "filter (\<lambda>y. f y = k) xs \<noteq> []"
    using win kw by (auto simp: filter_empty_conv)
  then obtain ys where fy: "filter (\<lambda>y. f y = k) xs = w # ys"
    using filt by (cases "filter (\<lambda>y. f y = k) xs") auto
  obtain us vs where xs: "xs = us @ w # vs" and us: "\<forall>u \<in> set us. f u \<noteq> k"
    using fy unfolding filter_eq_Cons_iff by blast
  have a: "length us < length xs" unfolding xs by simp
  have b: "xs ! length us = w" unfolding xs by simp
  have c: "\<forall>j < length xs. f (xs ! j) \<le> f (xs ! length us)"
    unfolding b using mx kw by auto
  have d: "\<forall>j < length us. f (xs ! j) < f (xs ! length us)"
  proof (intro allI impI)
    fix j assume j: "j < length us"
    have e: "xs ! j = us ! j" unfolding xs using j by (simp add: nth_append)
    have "f (us ! j) \<noteq> k" using us j by simp
    moreover have "f (xs ! j) \<le> k" using mx j a by simp
    ultimately show "f (xs ! j) < f (xs ! length us)" unfolding b e using kw by (simp add: less_le)
  qed
  show ?thesis
  proof (intro exI conjI)
    show "length us < length xs" by (rule a)
    show "w = xs ! length us" using b by simp
    show "\<forall>j < length xs. f (xs ! j) \<le> f (xs ! length us)" by (rule c)
    show "\<forall>j < length us. f (xs ! j) < f (xs ! length us)" by (rule d)
  qed
qed

lemma hd_sort_reverse_first_max:
  assumes "xs \<noteq> []"
  shows "\<exists>i < length xs. hd (sort_reverse f xs) = xs ! i
           \<and> (\<forall>j < length xs. f (xs ! j) \<le> f (xs ! i))
           \<and> (\<forall>j < i. f (xs ! j) < f (xs ! i))"
proof (rule first_max_index)
  show "hd (sort_reverse f xs) = hd (filter (\<lambda>y. f y = f (hd (sort_reverse f xs))) xs)"
    by (rule hd_sort_reverse_filter [OF assms])
  show "f (hd (sort_reverse f xs)) = f (hd (sort_reverse f xs))" by (rule refl)
  have "sort_reverse f xs \<noteq> []" using assms by (simp add: sort_reverse_Nil_iff)
  then have "hd (sort_reverse f xs) \<in> set (sort_reverse f xs)" by (rule hd_in_set)
  then show "hd (sort_reverse f xs) \<in> set xs" by (simp only: set_sort_reverse)
  show "\<forall>x \<in> set xs. f x \<le> f (hd (sort_reverse f xs))"
    by (rule hd_sort_reverse_max [OF assms])
qed

subsection \<open>Cluster scoring and selection\<close>

lemma scored_in:
  assumes "s \<in> set (snd (find_winning_cluster_top5_method cands use_rlap_cos))"
  shows "\<exists>c \<in> set cands. matches c \<noteq> []
           \<and> s = score_cluster (if use_rlap_cos then ''rlap_cos'' else ''rlap'') c"
  using assms
  by (auto simp: find_winning_cluster_top5_method_def Let_def cluster_scores_def
        set_sort_reverse split: if_splits)

lemma score_cluster_fields:
  "info_penalized_score (score_cluster k c)
     = info_top_5_mean (score_cluster k c) * info_penalty_factor (score_cluster k c)"
  "info_penalty_factor (score_cluster k c)
     = (if 5 \<le> length (matches c) then 1 else (95 / 100) ^ (5 - length (matches c)))"
  "info_cluster_size (score_cluster k c) = length (matches c)"
  "matches (info_cluster (score_cluster k c)) = matches c"
  "info_top_5_values (score_cluster k c) = take 5 (sorted_metric_values k (matches c))"
  "matches c \<noteq> [] \<Longrightarrow> info_top_5_mean (score_cluster k c)
     = np_mean (take 5 (sorted_metric_values k (matches c)))"
  "penalized_score (info_cluster (score_cluster k c)) = info_penalized_score (score_cluster k c)"
  "penalty_factor (info_cluster (score_cluster k c)) = info_penalty_factor (score_cluster k c)"
  "top_5_mean (info_cluster (score_cluster k c)) = info_top_5_mean (score_cluster k c)"
  by (auto simp: score_cluster_def Let_def sorted_metric_values_def length_sort_reverse
      sort_reverse_Nil_iff)

lemma tie_candidates_scores:
  "map score_summary (snd (find_winning_cluster_top5_method tie_candidates True))
     = [(''II'', 5, 10), (''Ia'', 6, 10)]"
  by (simp add: find_winning_cluster_top5_method_def tie_candidates_def cluster_scores_def
      score_cluster_def sorted_metric_values_def sort_reverse_def example_candidate_def
      example_match_def get_metric_def match_get_def np_mean_def score_summary_def Let_def)

lemma tie_candidates_first:
  "score_summary (hd (snd (find_winning_cluster_top5_method tie_candidates True)))
     = (''II'', 5, 10)"
  by (simp add: find_winning_cluster_top5_method_def tie_candidates_def cluster_scores_def
      score_cluster_def sorted_metric_values_def sort_reverse_def example_candidate_def
      example_match_def get_metric_def match_get_def np_mean_def score_summary_def Let_def)

lemma tie_candidates_winner:
  "map_option cluster_summary (fst (find_winning_cluster_top5_method tie_candidates True))
     = Some (''II'', 5, 10)"
  by (simp add: find_winning_cluster_top5_method_def tie_candidates_def cluster_scores_def
      score_cluster_def sorted_metric_values_def sort_reverse_def example_candidate_def
      example_match_def get_metric_def match_get_def np_mean_def cluster_summary_def Let_def)

lemma sort_rev: "sort (rev xs) = sort xs"
proof -
  have "fold insort (rev xs) [] = fold insort xs []"
    by (rule fun_cong [OF fold_rev]) (simp add: fun_eq_iff insort_left_comm)
  then show ?thesis by (simp add: sort_conv_fold)
qed

lemma sort_reverse_id: "sort_reverse (\<lambda>v. v) xs = rev (sort xs)"
  by (simp add: sort_reverse_def sort_rev)

lemma sort_key_Nil_iff: "sort_key f xs = [] \<longleftrightarrow> xs = []"
  by (metis length_sort length_0_conv)

lemma score_cluster_in_scores:
  assumes "c \<in> set cands" and "matches c \<noteq> []"
  shows "score_cluster (if use_rlap_cos then ''rlap_cos'' else ''rlap'') c
           \<in> set (snd (find_winning_cluster_top5_method cands use_rlap_cos))"
proof -
  let ?k = "if use_rlap_cos then ''rlap_cos'' else ''rlap''"
  have in_scores: "score_cluster ?k c \<in> set (cluster_scores ?k cands)"
    using assms by (auto simp: cluster_scores_def)
  then have ne: "cluster_scores ?k cands \<noteq> []" by auto
  have "cands \<noteq> []" using assms(1) by auto
  then have "snd (find_winning_cluster_top5_method cands use_rlap_cos)
      = sort_reverse info_penalized_score (cluster_scores ?k cands)"
    using ne by (simp add: find_winning_cluster_top5_method_def Let_def)
  then show ?thesis using in_scores by (simp add: set_sort_reverse)
qed

lemma length_all_cluster_scores:
  "length (snd (find_winning_cluster_top5_method cands use_rlap_cos))
     = length (filter (\<lambda>c. matches c \<noteq> []) cands)"
  by (simp add: find_winning_cluster_top5_method_def Let_def cluster_scores_def
      length_sort_reverse)

text \<open>
  C6. Every input candidate with matches is scored by
  \<^verbatim>\<open>find_winning_cluster_top5_method\<close>: \<^verbatim>\<open>all_cluster_scores\<close> has an entry for it, of
  its type and id, whose \<open>top_5_values\<close> are the up to five highest metric values of
  the candidate's matches, whose \<open>top_5_mean\<close> is their mean, whose \<open>penalty_factor\<close> is
  1 when the candidate has five or more matches and \<open>0.95 ^ (5 - size)\<close> when it has
  fewer (so 1 for exactly five), and whose \<open>penalized_score\<close> is
  \<open>top_5_mean * penalty_factor\<close>. The entry's cluster is the candidate with these
  numbers written into it, and there are as many entries as candidates with matches.
\<close>

theorem penalized_score_is_top5_mean_times_penalty:
  assumes "c \<in> set cands" and "matches c \<noteq> []"
  shows "(\<exists>s \<in> set (snd (find_winning_cluster_top5_method cands use_rlap_cos)).
            info_cluster_type s = type_name c
          \<and> info_cluster_id s = cluster_id c
          \<and> info_cluster_size s = length (matches c)
          \<and> info_top_5_values s
              = take 5 (rev (sort (map (get_metric (if use_rlap_cos then ''rlap_cos'' else ''rlap''))
                                     (matches c))))
          \<and> info_top_5_mean s
              = sum_list (info_top_5_values s) / real (length (info_top_5_values s))
          \<and> info_penalty_factor s
              = (if 5 \<le> length (matches c) then 1 else (95 / 100) ^ (5 - length (matches c)))
          \<and> info_penalized_score s = info_top_5_mean s * info_penalty_factor s
          \<and> info_cluster s
              = c\<lparr>top_5_values := info_top_5_values s, top_5_mean := info_top_5_mean s,
                  penalty_factor := info_penalty_factor s,
                  penalized_score := info_penalized_score s,
                  composite_score := info_penalized_score s\<rparr>)
       \<and> length (snd (find_winning_cluster_top5_method cands use_rlap_cos))
           = length (filter (\<lambda>c. matches c \<noteq> []) cands)"
proof -
  let ?k = "if use_rlap_cos then ''rlap_cos'' else ''rlap''"
  let ?s = "score_cluster ?k c"
  have mem: "?s \<in> set (snd (find_winning_cluster_top5_method cands use_rlap_cos))"
    by (rule score_cluster_in_scores [OF assms])
  have top: "info_top_5_values ?s = take 5 (rev (sort (map (get_metric ?k) (matches c))))"
    by (simp add: score_cluster_def Let_def sorted_metric_values_def sort_reverse_id)
  have tne: "info_top_5_values ?s \<noteq> []"
    unfolding top using assms(2) by (simp add: sort_key_Nil_iff)
  have mean: "info_top_5_mean ?s
      = sum_list (info_top_5_values ?s) / real (length (info_top_5_values ?s))"
    using tne by (simp add: score_cluster_def Let_def np_mean_def)
  have pf: "info_penalty_factor ?s
      = (if 5 \<le> length (matches c) then 1 else (95 / 100) ^ (5 - length (matches c)))"
    by (simp add: score_cluster_def Let_def sorted_metric_values_def length_sort_reverse)
  have score: "info_penalized_score ?s = info_top_5_mean ?s * info_penalty_factor ?s"
    by (simp add: score_cluster_def Let_def)
  have ids: "info_cluster_type ?s = type_name c" "info_cluster_id ?s = cluster_id c"
      "info_cluster_size ?s = length (matches c)"
    by (simp_all add: score_cluster_def Let_def)
  have cl: "info_cluster ?s
      = c\<lparr>top_5_values := info_top_5_values ?s, top_5_mean := info_top_5_mean ?s,
          penalty_factor := info_penalty_factor ?s,
          penalized_score := info_penalized_score ?s,
          composite_score := info_penalized_score ?s\<rparr>"
    by (simp add: score_cluster_def Let_def)
  show ?thesis
  proof (intro conjI bexI [of _ ?s])
    show "info_cluster_type ?s = type_name c" by (rule ids(1))
    show "info_cluster_id ?s = cluster_id c" by (rule ids(2))
    show "info_cluster_size ?s = length (matches c)" by (rule ids(3))
    show "info_top_5_values ?s = take 5 (rev (sort (map (get_metric ?k) (matches c))))"
      by (rule top)
    show "info_top_5_mean ?s
      = sum_list (info_top_5_values ?s) / real (length (info_top_5_values ?s))" by (rule mean)
    show "info_penalty_factor ?s
      = (if 5 \<le> length (matches c) then 1 else (95 / 100) ^ (5 - length (matches c)))"
      by (rule pf)
    show "info_penalized_score ?s = info_top_5_mean ?s * info_penalty_factor ?s" by (rule score)
    show "info_cluster ?s
      = c\<lparr>top_5_values := info_top_5_values ?s, top_5_mean := info_top_5_mean ?s,
          penalty_factor := info_penalty_factor ?s,
          penalized_score := info_penalized_score ?s,
          composite_score := info_penalized_score ?s\<rparr>" by (rule cl)
    show "?s \<in> set (snd (find_winning_cluster_top5_method cands use_rlap_cos))" by (rule mem)
    show "length (snd (find_winning_cluster_top5_method cands use_rlap_cos))
           = length (filter (\<lambda>c. matches c \<noteq> []) cands)"
      by (rule length_all_cluster_scores)
  qed
qed

lemma three_member_candidate_values:
  "matches three_member_candidate \<noteq> []"
  "length (matches three_member_candidate) = 3"
  "type_name three_member_candidate = ''Ib''"
  "take 5 (rev (sort (map (get_metric ''rlap_cos'') (matches three_member_candidate))))
     = [12, 9, 6]"
  by (simp_all add: three_member_candidate_def example_candidate_def example_match_def
      get_metric_def match_get_def)

theorem penalized_score_is_top5_mean_times_penalty_witness:
  "\<exists>s \<in> set (snd (find_winning_cluster_top5_method [three_member_candidate] True)).
      info_cluster_type s = ''Ib''
    \<and> info_cluster_size s = 3
    \<and> info_top_5_values s = [12, 9, 6]
    \<and> info_top_5_mean s = 9
    \<and> info_penalty_factor s = 361 / 400
    \<and> info_penalized_score s = 3249 / 400"
proof -
  have c: "three_member_candidate \<in> set [three_member_candidate]" by simp
  obtain s where s: "s \<in> set (snd (find_winning_cluster_top5_method [three_member_candidate] True))"
    and ty: "info_cluster_type s = type_name three_member_candidate"
    and sz: "info_cluster_size s = length (matches three_member_candidate)"
    and top: "info_top_5_values s
        = take 5 (rev (sort (map (get_metric (if True then ''rlap_cos'' else ''rlap''))
                               (matches three_member_candidate))))"
    and mean: "info_top_5_mean s
        = sum_list (info_top_5_values s) / real (length (info_top_5_values s))"
    and pf: "info_penalty_factor s
        = (if 5 \<le> length (matches three_member_candidate) then 1
           else (95 / 100) ^ (5 - length (matches three_member_candidate)))"
    and score: "info_penalized_score s = info_top_5_mean s * info_penalty_factor s"
    using penalized_score_is_top5_mean_times_penalty
      [OF c three_member_candidate_values(1), of True]
    by blast
  have top': "info_top_5_values s = [12, 9, 6]"
    using top by (simp add: three_member_candidate_values)
  have mean': "info_top_5_mean s = 9" using mean top' by simp
  have pf': "info_penalty_factor s = 361 / 400"
    using pf by (simp add: three_member_candidate_values power2_eq_square)
  have score': "info_penalized_score s = 3249 / 400" using score mean' pf' by simp
  show ?thesis
    using s ty sz top' mean' pf' score' by (auto simp: three_member_candidate_values)
qed

text \<open>
  C1 (as the code has it). When at least one candidate has matches, the winning cluster is
  a scored candidate whose penalized score is maximal among the scored candidates, and
  among candidates with that score it is the one that comes first in the candidate list:
  every scored candidate before it has a strictly smaller score. Size and type name play
  no part.
\<close>

theorem best_cluster_is_first_maximum:
  assumes "\<exists>c \<in> set cands. matches c \<noteq> []"
  shows "\<exists>i < length (cluster_scores (if use_rlap_cos then ''rlap_cos'' else ''rlap'') cands).
           fst (find_winning_cluster_top5_method cands use_rlap_cos)
             = Some (info_cluster
                 (cluster_scores (if use_rlap_cos then ''rlap_cos'' else ''rlap'') cands ! i))
         \<and> (\<forall>j < length (cluster_scores (if use_rlap_cos then ''rlap_cos'' else ''rlap'') cands).
              info_penalized_score
                (cluster_scores (if use_rlap_cos then ''rlap_cos'' else ''rlap'') cands ! j)
              \<le> info_penalized_score
                (cluster_scores (if use_rlap_cos then ''rlap_cos'' else ''rlap'') cands ! i))
         \<and> (\<forall>j < i.
              info_penalized_score
                (cluster_scores (if use_rlap_cos then ''rlap_cos'' else ''rlap'') cands ! j)
              < info_penalized_score
                (cluster_scores (if use_rlap_cos then ''rlap_cos'' else ''rlap'') cands ! i))"
proof -
  define scs where "scs = cluster_scores (if use_rlap_cos then ''rlap_cos'' else ''rlap'') cands"
  have ne: "scs \<noteq> []"
    using assms by (auto simp: scs_def cluster_scores_def filter_empty_conv)
  have cne: "cands \<noteq> []" using assms by auto
  have win: "fst (find_winning_cluster_top5_method cands use_rlap_cos)
               = Some (info_cluster (hd (sort_reverse info_penalized_score scs)))"
    using ne cne by (simp add: find_winning_cluster_top5_method_def Let_def scs_def)
  obtain i where i: "i < length scs" "hd (sort_reverse info_penalized_score scs) = scs ! i"
      "\<forall>j < length scs. info_penalized_score (scs ! j) \<le> info_penalized_score (scs ! i)"
      "\<forall>j < i. info_penalized_score (scs ! j) < info_penalized_score (scs ! i)"
    using hd_sort_reverse_first_max [OF ne, of info_penalized_score] by blast
  show ?thesis
    unfolding scs_def [symmetric] using win i by auto
qed

theorem best_cluster_is_first_maximum_witness:
  "\<exists>i < length (cluster_scores ''rlap_cos'' tie_candidates).
      fst (find_winning_cluster_top5_method tie_candidates True)
        = Some (info_cluster (cluster_scores ''rlap_cos'' tie_candidates ! i))
    \<and> (\<forall>j < i. info_penalized_score (cluster_scores ''rlap_cos'' tie_candidates ! j)
               < info_penalized_score (cluster_scores ''rlap_cos'' tie_candidates ! i))"
proof -
  have "\<exists>c \<in> set tie_candidates. matches c \<noteq> []"
    by (simp add: tie_candidates_def example_candidate_def)
  from best_cluster_is_first_maximum [OF this, of True] show ?thesis by auto
qed

text \<open>
  C1 as stated fails on a tie: both candidates score 10, the second one is larger (6
  members against 5) and its type name \<open>Ia\<close> also precedes \<open>II\<close>, yet the first one wins.
\<close>

theorem tie_not_broken_by_size_counterexample:
  "map score_summary (snd (find_winning_cluster_top5_method tie_candidates True))
     = [(''II'', 5, 10), (''Ia'', 6, 10)]
   \<and> map_option cluster_summary (fst (find_winning_cluster_top5_method tie_candidates True))
     = Some (''II'', 5, 10)"
  by (simp only: tie_candidates_scores tie_candidates_winner)

subsection \<open>Subtype voting\<close>

lemma map_fst_group_append:
  "map fst (group_append k v g) = (if k \<in> fst ` set g then map fst g else map fst g @ [k])"
  by (induction g) fastforce+

lemma map_of_group_append:
  "map_of (group_append k v g) k' =
     (if k' = k then Some ((case map_of g k of None \<Rightarrow> [] | Some vs \<Rightarrow> vs) @ [v])
      else map_of g k')"
  by (induction g) auto

lemma subtype_groups_snoc:
  "subtype_groups (ms @ [m]) = group_append (subtype m) m (subtype_groups ms)"
  by (simp add: subtype_groups_def)

lemma subtype_groups_keys:
  "distinct (map fst (subtype_groups ms)) \<and> set (map fst (subtype_groups ms)) = subtype ` set ms"
proof (induction ms rule: rev_induct)
  case Nil
  show ?case by (simp add: subtype_groups_def)
next
  case (snoc m ms)
  then show ?case
    by (auto simp: subtype_groups_snoc map_fst_group_append)
qed

lemma map_of_subtype_groups:
  "map_of (subtype_groups ms) k =
     (if k \<in> subtype ` set ms then Some (filter (\<lambda>m. subtype m = k) ms) else None)"
proof (induction ms rule: rev_induct)
  case Nil
  show ?case by (simp add: subtype_groups_def)
next
  case (snoc m ms)
  show ?case
    unfolding subtype_groups_snoc map_of_group_append using snoc
    by (auto simp: filter_empty_conv empty_filter_conv image_iff) metis+
qed

lemma subtype_groups_member:
  assumes "(st, g) \<in> set (subtype_groups ms)"
  shows "g = filter (\<lambda>m. subtype m = st) ms \<and> g \<noteq> []"
proof -
  have "map_of (subtype_groups ms) st = Some g"
    using assms subtype_groups_keys [of ms] by simp
  then show ?thesis
    by (auto simp: map_of_subtype_groups filter_empty_conv split: if_splits)
qed

lemma subtype_score_value:
  assumes "g \<noteq> []"
  shows "subtype_score g =
     Inr (np_mean (map metric_value (take 5 (sort_reverse metric_value g)))
            * (real (min 5 (length g)) / 5))"
  using assms
  by (simp add: subtype_score_def Let_def np_mean_def length_sort_reverse sort_reverse_Nil_iff
      min.commute)

lemma subtype_scores_of_value:
  assumes "\<forall>(st, g) \<in> set groups. g \<noteq> []"
  shows "subtype_scores_of groups =
     Inr (map (\<lambda>(st, g). (st, np_mean (map metric_value (take 5 (sort_reverse metric_value g)))
            * (real (min 5 (length g)) / 5))) groups)"
  using assms
  by (induction groups) (auto simp: subtype_score_value)

lemma subtype_scores_value:
  "subtype_scores ms =
     Inr (map (\<lambda>(st, g). (st, np_mean (map metric_value (take 5 (sort_reverse metric_value g)))
            * (real (min 5 (length g)) / 5))) (subtype_groups ms))"
  unfolding subtype_scores_def
  by (rule subtype_scores_of_value) (auto dest: subtype_groups_member)

lemma py_max_key_max:
  "py_max_key best xs \<in> set (best # xs)
     \<and> (\<forall>x \<in> set (best # xs). snd x \<le> snd (py_max_key best xs))"
proof (induction xs arbitrary: best)
  case Nil
  show ?case by simp
next
  case (Cons x xs)
  show ?case
    using Cons [of "if snd best < snd x then x else best"]
    by (auto split: if_splits)
qed

lemma four_matches_members: "collect_members (get_metric ''rlap_cos'') four_gamma 0 (1 / 10) 0 four_matches
   = Inr four_members"
  by (simp add: four_gamma_def four_matches_def example_match_def get_metric_def match_get_def
      member_subtype_def py_isspace_def norm_label_def Let_def four_members_def)

lemma four_members_scores: "subtype_scores four_members = Inr [(norm_label, 8)]"
  by (simp add: subtype_scores_def subtype_groups_def subtype_score_def sort_reverse_def Let_def
      four_members_def)

lemma four_members_nonempty: "four_members \<noteq> []" by (simp add: four_members_def)

lemma four_matches_vote: "choose_subtype_weighted_voting (get_metric ''rlap_cos'') ''Ia'' 0 four_matches four_gamma (1 / 10)
   = Inr (norm_label, 1, 0, None)"
  by (simp add: choose_subtype_weighted_voting_def four_matches_members four_members_scores
      four_members_nonempty sort_reverse_def Let_def)

lemma four_matches_cluster_score: "info_penalized_score (score_cluster ''rlap_cos'' (example_candidate ''Ia'' four_matches)) = 19 / 2"
  by (simp add: score_cluster_def sorted_metric_values_def sort_reverse_def example_candidate_def
      four_matches_def example_match_def get_metric_def match_get_def np_mean_def Let_def)

text \<open>
  C2 (as the code has it). In \<^verbatim>\<open>choose_subtype_weighted_voting\<close> the score of each
  subtype present among the cluster members is the mean of its up to five highest
  metric values multiplied by \<open>min(5, size) / 5\<close>: factor 1 for five or more members,
  \<open>size / 5\<close> for fewer. The subtype returned has the largest of these scores.
\<close>

theorem subtype_score_is_top5_mean_times_fraction:
  assumes "collect_members get_best_metric_value gamma k_star resp_cut 0 ms = Inr members"
    and "members \<noteq> []"
  shows "\<exists>scores best conf margin second.
           subtype_scores members = Inr scores
         \<and> distinct (map fst scores)
         \<and> set (map fst scores) = subtype ` set members
         \<and> (\<forall>(st, v) \<in> set scores.
              v = np_mean (map metric_value (take 5 (sort_reverse metric_value
                     (filter (\<lambda>m. subtype m = st) members))))
                  * (real (min 5 (length (filter (\<lambda>m. subtype m = st) members))) / 5))
         \<and> choose_subtype_weighted_voting get_best_metric_value winning_type k_star ms gamma
              resp_cut = Inr (best, conf, margin, second)
         \<and> (\<exists>v. (best, v) \<in> set scores \<and> (\<forall>u \<in> snd ` set scores. u \<le> v))"
proof -
  let ?f = "\<lambda>(st, g). (st, np_mean (map metric_value (take 5 (sort_reverse metric_value g)))
            * (real (min 5 (length g)) / 5))"
  define scores where "scores = map ?f (subtype_groups members)"
  have r: "subtype_scores members = Inr scores"
    unfolding scores_def by (rule subtype_scores_value)
  have keys: "map fst scores = map fst (subtype_groups members)"
    unfolding scores_def by (induction "subtype_groups members") auto
  have vals: "\<forall>(st, v) \<in> set scores.
           v = np_mean (map metric_value (take 5 (sort_reverse metric_value
                  (filter (\<lambda>m. subtype m = st) members))))
               * (real (min 5 (length (filter (\<lambda>m. subtype m = st) members))) / 5)"
    unfolding scores_def using subtype_groups_member [of _ _ members] by fastforce
  have d: "distinct (map fst scores)" "set (map fst scores) = subtype ` set members"
    using keys subtype_groups_keys [of members] by simp_all
  have ne: "scores \<noteq> []" using d(2) assms(2) by auto
  define best where "best = py_max_key (hd scores) (tl scores)"
  have bm: "best \<in> set scores \<and> (\<forall>x \<in> set scores. snd x \<le> snd best)"
    using py_max_key_max [of "hd scores" "tl scores"] ne by (simp add: best_def)
  have "\<exists>conf margin second.
      choose_subtype_weighted_voting get_best_metric_value winning_type k_star ms gamma resp_cut
        = Inr (fst best, conf, margin, second)"
    using assms r ne by (simp add: choose_subtype_weighted_voting_def Let_def best_def)
  then obtain conf margin second where
    c: "choose_subtype_weighted_voting get_best_metric_value winning_type k_star ms gamma resp_cut
        = Inr (fst best, conf, margin, second)" by blast
  show ?thesis
  proof (intro exI conjI)
    show "subtype_scores members = Inr scores" by (rule r)
    show "distinct (map fst scores)" by (rule d(1))
    show "set (map fst scores) = subtype ` set members" by (rule d(2))
    show "\<forall>(st, v) \<in> set scores.
           v = np_mean (map metric_value (take 5 (sort_reverse metric_value
                  (filter (\<lambda>m. subtype m = st) members))))
               * (real (min 5 (length (filter (\<lambda>m. subtype m = st) members))) / 5)"
      by (rule vals)
    show "choose_subtype_weighted_voting get_best_metric_value winning_type k_star ms gamma
            resp_cut = Inr (fst best, conf, margin, second)" by (rule c)
    show "(fst best, snd best) \<in> set scores" using bm by simp
    show "\<forall>u \<in> snd ` set scores. u \<le> snd best" using bm by auto
  qed
qed

theorem subtype_score_is_top5_mean_times_fraction_witness:
  "\<exists>scores best conf margin second.
      subtype_scores four_members = Inr scores
    \<and> distinct (map fst scores)
    \<and> set (map fst scores) = subtype ` set four_members
    \<and> (\<forall>(st, v) \<in> set scores.
         v = np_mean (map metric_value (take 5 (sort_reverse metric_value
                (filter (\<lambda>m. subtype m = st) four_members))))
             * (real (min 5 (length (filter (\<lambda>m. subtype m = st) four_members))) / 5))
    \<and> choose_subtype_weighted_voting (get_metric ''rlap_cos'') ''Ia'' 0 four_matches four_gamma
         (1 / 10) = Inr (best, conf, margin, second)
    \<and> (\<exists>v. (best, v) \<in> set scores \<and> (\<forall>u \<in> snd ` set scores. u \<le> v))"
  by (rule subtype_score_is_top5_mean_times_fraction
        [OF four_matches_members four_members_nonempty])

text \<open>
  C2 as stated fails: four members of one subtype, each with metric 10, get the subtype
  score \<open>10 * 4/5 = 8\<close>, while the rule of the cluster selection gives the same four
  values the score \<open>10 * 0.95 = 9.5\<close>.
\<close>

theorem subtype_penalty_differs_counterexample:
  "collect_members (get_metric ''rlap_cos'') four_gamma 0 (1 / 10) 0 four_matches
     = Inr four_members
   \<and> subtype_scores four_members = Inr [(norm_label, 8)]
   \<and> info_penalized_score
       (score_cluster ''rlap_cos'' (example_candidate ''Ia'' four_matches)) = 19 / 2"
  by (simp only: four_matches_members four_members_scores four_matches_cluster_score)

subsection \<open>Redshift quality of the clusters of one type\<close>

lemma gmm_cluster_info_quality:
  assumes "gmm_cluster_info type_matches labels q cid = Some c"
  shows "ci_redshift_quality c = spec_redshift_quality (ci_redshift_span c) q"
  using assms
  by (auto simp: gmm_cluster_info_def spec_redshift_quality_def Let_def mult.commute
      split: if_splits)

text \<open>The mixture path classifies every cluster it emits by the four-level rule.\<close>

lemma gmm_path_quality:
  assumes "2 \<le> min max_clusters (length type_matches div 2 + 1)"
    and "perform_direct_gmm_clustering_of_type fit_predict type_matches max_clusters q = Inr r"
    and "c \<in> set (clusters r)"
  shows "ci_redshift_quality c = spec_redshift_quality (ci_redshift_span c) q"
proof -
  obtain n labels where
    "c \<in> set (List.map_filter (gmm_cluster_info type_matches labels q) [0 ..< n])"
    using assms
    by (auto simp: perform_direct_gmm_clustering_of_type_def Let_def
        split: if_splits sum.splits)
  then obtain cid where "gmm_cluster_info type_matches labels q cid = Some c"
    by (auto simp: List.map_filter_def)
  then show ?thesis by (rule gmm_cluster_info_quality)
qed

text \<open>
  C3 at the fallback path: with \<open>max_clusters = 1\<close> the two matches at redshifts 0 and
  0.1 form a single cluster of span 0.1, more than four times the threshold 0.02. The
  rule of the specification calls it \<open>very_loose\<close>; \<^verbatim>\<open>_create_single_cluster_result\<close>
  calls it \<open>loose\<close>.
\<close>

theorem single_cluster_fallback_wide_span_is_loose:
  "map_sum id quality_summary
     (perform_direct_gmm_clustering_of_type no_fit wide_matches 1 (2 / 100))
     = Inr [(1 / 10, loose)]
   \<and> spec_redshift_quality (1 / 10) (2 / 100) = very_loose"
  by (simp add: perform_direct_gmm_clustering_of_type_def create_single_cluster_result_def
      wide_matches_def example_match_def quality_summary_def spec_redshift_quality_def Let_def)

subsection \<open>Apodization\<close>

text \<open>
  C8. With \<open>percent = 0\<close>, \<^verbatim>\<open>apodize\<close> returns an array equal to its input, for every
  edge pair (valid or not); hence the tapered flux computed with percentage 0 equals the
  flattened flux.
\<close>

theorem apodize_percent_zero_is_identity:
  "apodize arr n1 n2 (Some 0) = arr \<and> tapered_flux_of flat_flux (Some 0) = flat_flux"
  by (simp add: apodize_def tapered_flux_of_def Let_def)

theorem apodize_percent_zero_is_identity_witness:
  "apodize [1, 2, 3, 4] 0 3 (Some 0) = [1, 2, 3, 4]
   \<and> tapered_flux_of [0, 5, 7, 0] (Some 0) = [0, 5, 7, 0]"
  by (rule apodize_percent_zero_is_identity)

subsection \<open>Savitzky-Golay smoothing\<close>

lemma lsq_five_point_cubic:
  "lsq_savgol_filter [0, 0, 1, 0, 0] 5 3
     = Inr [- (3 / 35), 12 / 35, 17 / 35, 12 / 35, - (3 / 35)]"
  by (simp add: lsq_savgol_filter_def polyfit_eval_def Let_def upt_rec)

text \<open>
  C4 (as the code has it). When the requested window is longer than the data, both
  smoothing functions clamp the window to the data length and the order below it, and
  return what the library filter computes for that window; this is the input itself
  when the data has fewer than 3 samples or the library filter raises, and for
  \<^verbatim>\<open>savgol_filter_fixed\<close> when the requested window is below 3. Before that,
  \<^verbatim>\<open>savgol_filter_wavelength\<close> raises \<^verbatim>\<open>ValueError\<close> when data and wavelengths differ in
  length, returns the input when the width is not positive, and raises when there are
  fewer than two wavelengths (\<^verbatim>\<open>ValueError\<close>) or their mean spacing is zero
  (\<^verbatim>\<open>OverflowError\<close>).
\<close>

theorem savgol_window_longer_than_data_is_clamped:
  "(int (length data) < window_length \<longrightarrow>
      savgol_filter_fixed savgol_filter data window_length polyorder =
        (if window_length < 3 \<or> length data < 3 then data
         else (case savgol_filter data (int (length data))
                      (min polyorder (int (length data) - 1)) of
                 Inr y \<Rightarrow> y
               | Inl e \<Rightarrow> data)))
   \<and> (int (length data) < requested_window_pixels wave fwhm_angstrom \<longrightarrow>
      savgol_filter_wavelength savgol_filter wave data fwhm_angstrom polyorder =
        (if length data \<noteq> length wave then Inl ValueError
         else if fwhm_angstrom \<le> 0 then Inr data
         else if length wave < 2 then Inl ValueError
         else if np_mean (np_diff wave) = 0 then Inl OverflowError
         else if length data < 3 then Inr data
         else (case savgol_filter data (int (length data))
                      (min polyorder (int (length data) - 1)) of
                 Inr y \<Rightarrow> Inr y
               | Inl e \<Rightarrow> Inr data)))"
proof (intro conjI impI)
  assume "int (length data) < window_length"
  then have "min (if window_length mod 2 = 0 then window_length + 1 else window_length)
          (int (length data)) = int (length data)"
    by auto
  then show "savgol_filter_fixed savgol_filter data window_length polyorder =
        (if window_length < 3 \<or> length data < 3 then data
         else (case savgol_filter data (int (length data))
                      (min polyorder (int (length data) - 1)) of
                 Inr y \<Rightarrow> y
               | Inl e \<Rightarrow> data))"
    by (simp add: savgol_filter_fixed_def Let_def)
next
  assume "int (length data) < requested_window_pixels wave fwhm_angstrom"
  then have m: "min (requested_window_pixels wave fwhm_angstrom) (int (length data))
      = int (length data)"
    by simp
  have d: "np_diff wave = [] \<longleftrightarrow> length wave < 2"
    by (cases wave; cases "tl wave") (simp_all add: np_diff_def)
  show "savgol_filter_wavelength savgol_filter wave data fwhm_angstrom polyorder =
        (if length data \<noteq> length wave then Inl ValueError
         else if fwhm_angstrom \<le> 0 then Inr data
         else if length wave < 2 then Inl ValueError
         else if np_mean (np_diff wave) = 0 then Inl OverflowError
         else if length data < 3 then Inr data
         else (case savgol_filter data (int (length data))
                      (min polyorder (int (length data) - 1)) of
                 Inr y \<Rightarrow> Inr y
               | Inl e \<Rightarrow> Inr data))"
    unfolding savgol_filter_wavelength_def Let_def m d by simp
qed

lemma requested_window_example: "requested_window_pixels [1, 2, 3, 4, 5] 10 = 9"
  by (simp add: requested_window_pixels_def np_mean_def np_diff_def py_int_def Let_def)

theorem savgol_window_longer_than_data_is_clamped_witness:
  "int (length [0, 0, 1, 0, 0 :: real]) < 7
   \<and> savgol_filter_fixed lsq_savgol_filter [0, 0, 1, 0, 0] 7 3
       = [- (3 / 35), 12 / 35, 17 / 35, 12 / 35, - (3 / 35)]
   \<and> int (length [0, 0, 1, 0, 0 :: real]) < requested_window_pixels [1, 2, 3, 4, 5] 10
   \<and> savgol_filter_wavelength lsq_savgol_filter [1, 2, 3, 4, 5] [0, 0, 1, 0, 0] 10 3
       = Inr [- (3 / 35), 12 / 35, 17 / 35, 12 / 35, - (3 / 35)]"
  using savgol_window_longer_than_data_is_clamped
    [where data = "[0, 0, 1, 0, 0]" and window_length = 7 and savgol_filter = lsq_savgol_filter
       and polyorder = 3 and wave = "[1, 2, 3, 4, 5]" and fwhm_angstrom = 10]
  by (simp add: lsq_five_point_cubic requested_window_example np_mean_def np_diff_def)

text \<open>
  The library filter can also return its input: a run of equal samples is its own
  least-squares fit. So the step may leave the data unchanged without any of the
  early returns being taken.
\<close>

lemma savgol_constant_data_unchanged:
  "lsq_savgol_filter [0, 0, 0, 0, 0] 5 3 = Inr [0, 0, 0, 0, 0]
   \<and> savgol_filter_fixed lsq_savgol_filter [0, 0, 0, 0, 0] 7 3 = [0, 0, 0, 0, 0]"
  by (simp add: savgol_filter_fixed_def lsq_savgol_filter_def polyfit_eval_def Let_def upt_rec)

text \<open>
  \<^verbatim>\<open>savgol_filter_wavelength\<close> on a single sample: the mean of the empty difference
  array is NaN, and \<^verbatim>\<open>int\<close> raises on it.
\<close>

lemma savgol_filter_wavelength_single_sample:
  "0 < fwhm_angstrom \<Longrightarrow>
     savgol_filter_wavelength savgol_filter [w] [d] fwhm_angstrom polyorder = Inl ValueError"
  by (simp add: savgol_filter_wavelength_def np_diff_def)

text \<open>
  C4 as stated fails: a window of 7 on five samples is clamped to 5, the cubic fit over
  the five samples is returned, and it differs from the input.
\<close>

theorem savgol_window_longer_than_data_counterexample:
  "int (length [0, 0, 1, 0, 0 :: real]) < 7
   \<and> savgol_filter_fixed lsq_savgol_filter [0, 0, 1, 0, 0] 7 3
       = [- (3 / 35), 12 / 35, 17 / 35, 12 / 35, - (3 / 35)]
   \<and> savgol_filter_fixed lsq_savgol_filter [0, 0, 1, 0, 0] 7 3 \<noteq> [0, 0, 1, 0, 0]"
  by (simp add: savgol_filter_fixed_def Let_def lsq_five_point_cubic)

subsection \<open>Logarithmic rebinning\<close>

lemma length_accumulate_bins:
  "accumulate_bins s0 s1 fl dl js fdest = Inr fd \<Longrightarrow> length fd = length fdest"
  by (induction js arbitrary: fdest) (auto simp: Let_def split: if_splits option.splits)

lemma accumulate_bins_untouched:
  assumes "accumulate_bins s0 s1 fl dl js fdest = Inr fd"
    and "\<forall>i \<in> set js. 1 \<le> i"
    and "s1 \<le> real j + 1 \<or> real j + 2 \<le> s0"
  shows "fd ! j = fdest ! j"
  using assms
proof (induction js arbitrary: fdest)
  case Nil
  then show ?case by simp
next
  case (Cons i js)
  let ?alen = "min s1 (of_int i + 1) - max s0 (of_int i)"
  show ?case
  proof (cases "?alen \<le> 0")
    case True
    then show ?thesis using Cons by (simp add: Let_def)
  next
    case False
    have i1: "1 \<le> i" using Cons.prems(2) by simp
    have "nat (i - 1) \<noteq> j"
    proof
      assume e: "nat (i - 1) = j"
      then have "real_of_int i = real j + 1" using i1 by auto
      then have "?alen \<le> 0" using Cons.prems(3) by auto
      then show False using False by simp
    qed
    then show ?thesis
      using Cons False by (auto simp: Let_def split: option.splits)
  qed
qed

lemma accumulate_bins_ok:
  "\<exists>fd. accumulate_bins s0 s1 (Some f) dl js fdest = Inr fd"
  by (induction js arbitrary: fdest) (auto simp: Let_def)

lemma length_rebin_pixels:
  "rebin_pixels g s fsrc ls fdest = Inr fd \<Longrightarrow> length fd = length fdest"
proof (induction ls arbitrary: fdest)
  case Nil
  then show ?case by simp
next
  case (Cons l ls)
  then show ?case
    by (auto simp: Let_def split: sum.splits dest!: length_accumulate_bins)
qed

lemma rebin_pixels_untouched:
  assumes "rebin_pixels g s fsrc ls fdest = Inr fd"
    and "(\<forall>l \<in> set ls. slog_of g (s ! Suc l) \<le> real j + 1)
         \<or> (\<forall>l \<in> set ls. real j + 2 \<le> slog_of g (s ! l))"
  shows "fd ! j = fdest ! j"
  using assms
proof (induction ls arbitrary: fdest)
  case Nil
  then show ?case by simp
next
  case (Cons l ls)
  from Cons.prems(1) obtain f0 f1 fd1 where
    acc: "accumulate_bins (slog_of g (s ! l)) (slog_of g (s ! Suc l))
            (if l < length fsrc then Some (fsrc ! l) else None) (s ! Suc l - s ! l)
            [max 1 f0 .. min (int (NW g)) f1] fdest = Inr fd1"
    and rest: "rebin_pixels g s fsrc ls fd1 = Inr fd"
    by (auto simp: Let_def split: sum.splits)
  have here: "slog_of g (s ! Suc l) \<le> real j + 1 \<or> real j + 2 \<le> slog_of g (s ! l)"
    using Cons.prems(2) by auto
  have later: "(\<forall>l \<in> set ls. slog_of g (s ! Suc l) \<le> real j + 1)
         \<or> (\<forall>l \<in> set ls. real j + 2 \<le> slog_of g (s ! l))"
    using Cons.prems(2) by auto
  have "fd1 ! j = fdest ! j"
    using acc here by (intro accumulate_bins_untouched [OF acc]) auto
  moreover have "fd ! j = fd1 ! j"
    using Cons.IH [OF rest later] .
  ultimately show ?case by simp
qed

lemma rebin_pixels_ok:
  assumes "\<forall>l \<in> set ls. 0 < s ! l / W0 g \<and> 0 < s ! Suc l / W0 g \<and> l < length fsrc"
  shows "\<exists>fd. rebin_pixels g s fsrc ls fdest = Inr fd"
  using assms
proof (induction ls arbitrary: fdest)
  case Nil
  show ?case by simp
next
  case (Cons l ls)
  have f: "floor_slog g (s ! l) = Inr \<lfloor>slog_of g (s ! l)\<rfloor>"
      "floor_slog g (s ! Suc l) = Inr \<lfloor>slog_of g (s ! Suc l)\<rfloor>"
    using Cons.prems by (auto simp: floor_slog_def)
  have l: "l < length fsrc" using Cons.prems by simp
  obtain fd1 where acc: "accumulate_bins (slog_of g (s ! l)) (slog_of g (s ! Suc l))
            (Some (fsrc ! l)) (s ! Suc l - s ! l)
            [max 1 \<lfloor>slog_of g (s ! l)\<rfloor> .. min (int (NW g)) \<lfloor>slog_of g (s ! Suc l)\<rfloor>] fdest
            = Inr fd1"
    using accumulate_bins_ok by blast
  obtain fd where "rebin_pixels g s fsrc ls fd1 = Inr fd"
    using Cons.IH [of fd1] Cons.prems by auto
  then show ?case
    using f l acc by (simp add: Let_def)
qed

lemma length_pixel_edges: "2 \<le> length wave \<Longrightarrow> length (pixel_edges wave) = length wave + 1"
  by (simp add: pixel_edges_def)

lemma pixel_edges_nth:
  assumes "2 \<le> length wave"
  shows "pixel_edges wave ! 0 = 3 / 2 * wave ! 0 - 1 / 2 * wave ! 1"
    and "1 \<le> k \<Longrightarrow> k < length wave \<Longrightarrow>
           pixel_edges wave ! k = 1 / 2 * (wave ! (k - 1) + wave ! k)"
    and "pixel_edges wave ! length wave
           = 3 / 2 * wave ! (length wave - 1) - 1 / 2 * wave ! (length wave - 2)"
proof -
  show "pixel_edges wave ! 0 = 3 / 2 * wave ! 0 - 1 / 2 * wave ! 1"
    by (simp add: pixel_edges_def)
  show "pixel_edges wave ! k = 1 / 2 * (wave ! (k - 1) + wave ! k)"
    if k1: "1 \<le> k" and k2: "k < length wave"
  proof -
    obtain m where m: "k = Suc m" using k1 by (cases k) auto
    have "m < length (zip wave (tl wave))" using k2 m by simp
    then show ?thesis
      using k1 k2 m by (simp add: pixel_edges_def nth_append nth_tl)
  qed
  define ms where "ms = map2 (\<lambda>a b. 1 / 2 * (a + b)) wave (tl wave)"
  define y where "y = 3 / 2 * wave ! (length wave - 1) - 1 / 2 * wave ! (length wave - 2)"
  have lm: "Suc (length ms) = length wave" using assms by (simp add: ms_def)
  have "pixel_edges wave = (3 / 2 * wave ! 0 - 1 / 2 * wave ! 1) # ms @ [y]"
    by (simp add: pixel_edges_def ms_def y_def)
  then have "pixel_edges wave ! Suc (length ms) = y"
    by (simp only: nth_Cons_Suc nth_append_length)
  then show "pixel_edges wave ! length wave
           = 3 / 2 * wave ! (length wave - 1) - 1 / 2 * wave ! (length wave - 2)"
    unfolding lm y_def .
qed

lemma pixel_edges_step:
  assumes "sorted wave" and "2 \<le> length wave" and "k < length wave"
  shows "pixel_edges wave ! k \<le> pixel_edges wave ! Suc k"
proof -
  have mono: "\<And>i j. i \<le> j \<Longrightarrow> j < length wave \<Longrightarrow> wave ! i \<le> wave ! j"
    using assms(1) by (simp add: sorted_iff_nth_mono)
  consider "k = 0" | "1 \<le> k" "Suc k < length wave" | "1 \<le> k" "Suc k = length wave"
    using assms(3) by linarith
  then show ?thesis
  proof cases
    case 1
    have "wave ! 0 \<le> wave ! 1" using mono [of 0 1] assms(2) by simp
    then show ?thesis
      using 1 assms(2) pixel_edges_nth(1) [OF assms(2)] pixel_edges_nth(2) [OF assms(2), of 1]
      by simp
  next
    case 2
    have "wave ! (k - 1) \<le> wave ! k" using mono [of "k - 1" k] 2 by simp
    moreover have "wave ! k \<le> wave ! Suc k" using mono [of k "Suc k"] 2 by simp
    ultimately show ?thesis
      using 2 pixel_edges_nth(2) [OF assms(2), of k] pixel_edges_nth(2) [OF assms(2), of "Suc k"]
      by simp
  next
    case 3
    have "wave ! (k - 1) \<le> wave ! k" using mono [of "k - 1" k] 3 by simp
    moreover have "length wave - 1 = k" "length wave - 2 = k - 1" using 3 by simp_all
    ultimately show ?thesis
      using 3 pixel_edges_nth(2) [OF assms(2), of k] pixel_edges_nth(3) [OF assms(2)]
      by simp
  qed
qed

lemma pixel_edges_mono:
  assumes "sorted wave" and "2 \<le> length wave" and "i \<le> j" and "j \<le> length wave"
  shows "pixel_edges wave ! i \<le> pixel_edges wave ! j"
  using assms(3,4)
proof (induction j)
  case 0
  then show ?case by simp
next
  case (Suc j)
  show ?case
  proof (cases "i = Suc j")
    case True
    then show ?thesis by simp
  next
    case False
    then have "pixel_edges wave ! i \<le> pixel_edges wave ! j" using Suc by simp
    moreover have "pixel_edges wave ! j \<le> pixel_edges wave ! Suc j"
      using pixel_edges_step [OF assms(1,2), of j] Suc.prems by simp
    ultimately show ?thesis by simp
  qed
qed

lemma slog_of_mono:
  assumes "0 < W0 g" and "0 < DWLOG g" and "0 < a" and "a \<le> b"
  shows "slog_of g a \<le> slog_of g b"
proof -
  have "a / W0 g \<le> b / W0 g" using assms by (simp add: divide_right_mono)
  moreover have "0 < a / W0 g" using assms by simp
  ultimately have "ln (a / W0 g) \<le> ln (b / W0 g)" by simp
  then show ?thesis using assms(2) by (simp add: slog_of_def divide_right_mono)
qed

lemma slog_of_ge:
  assumes "0 < W0 g" and "0 < DWLOG g" and "W0 g * exp (x * DWLOG g) \<le> a"
  shows "x + 1 \<le> slog_of g a"
proof -
  have "exp (x * DWLOG g) \<le> a / W0 g"
    using assms by (simp add: pos_le_divide_eq mult.commute)
  then have "x * DWLOG g \<le> ln (a / W0 g)"
    by (metis exp_gt_zero ln_exp ln_mono less_le_trans)
  then have "x \<le> ln (a / W0 g) / DWLOG g"
    using assms(2) by (simp add: pos_le_divide_eq)
  then show ?thesis by (simp add: slog_of_def)
qed

lemma slog_of_le:
  assumes "0 < W0 g" and "0 < DWLOG g" and "0 < a" and "a \<le> W0 g * exp (x * DWLOG g)"
  shows "slog_of g a \<le> x + 1"
proof -
  have "a / W0 g \<le> exp (x * DWLOG g)"
    using assms by (simp add: pos_divide_le_eq mult.commute)
  moreover have "0 < a / W0 g" using assms by simp
  ultimately have "ln (a / W0 g) \<le> x * DWLOG g"
    by (metis ln_exp ln_mono)
  then have "ln (a / W0 g) / DWLOG g \<le> x"
    using assms(2) by (simp add: pos_divide_le_eq)
  then show ?thesis by (simp add: slog_of_def)
qed

text \<open>
  The rebinning with positive edges. On an initialised grid with \<open>W0 > 0\<close> and
  \<open>DWLOG > 0\<close>, for every spectrum with at least two increasing wavelengths, a flux
  value for every wavelength and a positive extrapolated first pixel edge
  \<open>1.5 * wave[0] - 0.5 * wave[1]\<close>, \<^verbatim>\<open>log_rebin\<close> returns arrays of length \<open>NW\<close>, and
  the flux of every bin that lies entirely outside the pixel edges of the input is
  exactly 0.
\<close>

theorem log_rebin_zero_outside_coverage:
  assumes w0: "0 < W0 g" and dw: "0 < DWLOG g"
    and srt: "sorted wave" and len: "2 \<le> length wave"
    and fl: "length wave \<le> length fsrc"
    and first: "0 < pixel_edges wave ! 0"
  shows "\<exists>log_wave log_flux.
           log_rebin (Some g) wave fsrc = Inr (log_wave, log_flux)
         \<and> length log_wave = NW g
         \<and> length log_flux = NW g
         \<and> (\<forall>j < NW g. bin_outside_coverage g wave j \<longrightarrow> log_flux ! j = 0)"
proof -
  define s where "s = pixel_edges wave"
  define n where "n = length wave"
  have mono: "\<And>i j. i \<le> j \<Longrightarrow> j \<le> n \<Longrightarrow> s ! i \<le> s ! j"
    unfolding s_def n_def by (rule pixel_edges_mono [OF srt len])
  have pos: "\<And>k. k \<le> n \<Longrightarrow> 0 < s ! k"
    using mono [of 0] first unfolding s_def by force
  have "\<forall>l \<in> set [0 ..< n]. 0 < s ! l / W0 g \<and> 0 < s ! Suc l / W0 g \<and> l < length fsrc"
    using pos w0 fl unfolding n_def by simp
  then obtain fd where fd: "rebin_pixels g s fsrc [0 ..< n] (replicate (NW g) 0) = Inr fd"
    using rebin_pixels_ok by blast
  have lfd: "length fd = NW g"
    using length_rebin_pixels [OF fd] by simp
  define log_wave where
    "log_wave = map (\<lambda>j. W0 g * exp ((real j + 1 / 2) * DWLOG g)) [0 ..< NW g]"
  define log_flux where "log_flux = map2 (\<lambda>f j. f / bin_width g j) fd [0 ..< NW g]"
  have res: "log_rebin (Some g) wave fsrc = Inr (log_wave, log_flux)"
    using fd len
    by (simp add: log_rebin_def Let_def s_def n_def log_wave_def log_flux_def)
  have l1: "length log_wave = NW g" by (simp add: log_wave_def)
  have l2: "length log_flux = NW g" by (simp add: log_flux_def lfd)
  have zero: "\<forall>j < NW g. bin_outside_coverage g wave j \<longrightarrow> log_flux ! j = 0"
  proof (intro allI impI)
    fix j assume j: "j < NW g" and out: "bin_outside_coverage g wave j"
    have cond: "(\<forall>l \<in> set [0 ..< n]. slog_of g (s ! Suc l) \<le> real j + 1)
         \<or> (\<forall>l \<in> set [0 ..< n]. real j + 2 \<le> slog_of g (s ! l))"
    proof -
      from out consider (before) "W0 g * exp ((real j + 1) * DWLOG g) \<le> s ! 0"
        | (after) "s ! n \<le> W0 g * exp (real j * DWLOG g)"
        unfolding bin_outside_coverage_def s_def n_def by blast
      then show ?thesis
      proof cases
        case before
        have a: "real j + 2 \<le> slog_of g (s ! 0)"
          using slog_of_ge [OF w0 dw before] by simp
        have "\<forall>l \<in> set [0 ..< n]. real j + 2 \<le> slog_of g (s ! l)"
        proof
          fix l assume "l \<in> set [0 ..< n]"
          then have l: "l \<le> n" by simp
          have "slog_of g (s ! 0) \<le> slog_of g (s ! l)"
            using slog_of_mono [OF w0 dw pos [of 0] mono [of 0 l]] l by simp
          then show "real j + 2 \<le> slog_of g (s ! l)" using a by simp
        qed
        then show ?thesis by blast
      next
        case after
        have a: "slog_of g (s ! n) \<le> real j + 1"
          using slog_of_le [OF w0 dw pos [of n] after] by simp
        have "\<forall>l \<in> set [0 ..< n]. slog_of g (s ! Suc l) \<le> real j + 1"
        proof
          fix l assume "l \<in> set [0 ..< n]"
          then have l: "Suc l \<le> n" by simp
          have "slog_of g (s ! Suc l) \<le> slog_of g (s ! n)"
            using slog_of_mono [OF w0 dw pos [of "Suc l"] mono [of "Suc l" n]] l by simp
          then show "slog_of g (s ! Suc l) \<le> real j + 1" using a by simp
        qed
        then show ?thesis by blast
      qed
    qed
    have "fd ! j = replicate (NW g) 0 ! j"
      by (rule rebin_pixels_untouched [OF fd cond])
    then have "fd ! j = 0" using j by simp
    then show "log_flux ! j = 0" using j lfd by (simp add: log_flux_def)
  qed
  show ?thesis
  proof (intro exI conjI)
    show "log_rebin (Some g) wave fsrc = Inr (log_wave, log_flux)" by (rule res)
    show "length log_wave = NW g" by (rule l1)
    show "length log_flux = NW g" by (rule l2)
    show "\<forall>j < NW g. bin_outside_coverage g wave j \<longrightarrow> log_flux ! j = 0" by (rule zero)
  qed
qed

theorem log_rebin_zero_outside_coverage_witness:
  "\<exists>log_wave log_flux.
      log_rebin (Some (init_wavelength_grid 4 1 (exp 4))) [4, 6] [1, 1] = Inr (log_wave, log_flux)
    \<and> length log_flux = 4
    \<and> log_flux ! 0 = 0"
proof -
  let ?g = "init_wavelength_grid 4 1 (exp 4)"
  have g: "NW ?g = 4" "W0 ?g = 1" "DWLOG ?g = 1"
    by (simp_all add: init_wavelength_grid_def)
  have e0: "pixel_edges [4, 6] ! 0 = 3" by (simp add: pixel_edges_def)
  have "\<exists>log_wave log_flux.
           log_rebin (Some ?g) [4, 6] [1, 1] = Inr (log_wave, log_flux)
         \<and> length log_wave = NW ?g
         \<and> length log_flux = NW ?g
         \<and> (\<forall>j < NW ?g. bin_outside_coverage ?g [4, 6] j \<longrightarrow> log_flux ! j = 0)"
    by (rule log_rebin_zero_outside_coverage) (simp_all add: g e0)
  then obtain log_wave log_flux where
    r: "log_rebin (Some ?g) [4, 6] [1, 1] = Inr (log_wave, log_flux)"
    and l: "length log_flux = NW ?g"
    and z: "\<forall>j < NW ?g. bin_outside_coverage ?g [4, 6] j \<longrightarrow> log_flux ! j = 0"
    by blast
  have "bin_outside_coverage ?g [4, 6] 0"
    using exp_le by (simp add: bin_outside_coverage_def g e0)
  then have "log_flux ! 0 = 0" using z g by simp
  then show ?thesis using r l g by simp
qed

text \<open>
  C7 fails in the code when the extrapolated first pixel edge
  \<open>1.5 * wave[0] - 0.5 * wave[1]\<close> is not positive, which happens for increasing
  wavelengths with \<open>wave[1] \<ge> 3 * wave[0]\<close>: on an initialised grid with \<open>W0 > 0\<close>,
  \<^verbatim>\<open>log_rebin\<close> then returns no array. The logarithm of a negative edge is NaN and
  \<^verbatim>\<open>int(np.floor(s0log))\<close> raises \<^verbatim>\<open>ValueError\<close>; for an edge of zero it is minus infinity
  and \<^verbatim>\<open>OverflowError\<close> is raised. The clamp \<^verbatim>\<open>max(1, ...)\<close> that follows is never
  reached.
\<close>

theorem log_rebin_raises_on_nonpositive_first_edge:
  assumes "0 < W0 g" and "2 \<le> length wave" and "pixel_edges wave ! 0 \<le> 0"
  shows "log_rebin (Some g) wave fsrc
           = Inl (if pixel_edges wave ! 0 < 0 then ValueError else OverflowError)"
proof -
  have "0 < length wave" using assms(2) by linarith
  then have u: "[0 ..< length wave] = 0 # [Suc 0 ..< length wave]"
    by (rule upt_conv_Cons)
  have f: "floor_slog g (pixel_edges wave ! 0)
      = Inl (if pixel_edges wave ! 0 < 0 then ValueError else OverflowError)"
    using assms(1,3) by (auto simp: floor_slog_def divide_less_0_iff)
  have "rebin_pixels g (pixel_edges wave) fsrc [0 ..< length wave] (replicate (NW g) 0)
      = Inl (if pixel_edges wave ! 0 < 0 then ValueError else OverflowError)"
    unfolding u by (simp add: f)
  then show ?thesis
    using assms(2) by (simp add: log_rebin_def Let_def)
qed

theorem log_rebin_raises_on_nonpositive_first_edge_witness:
  "sorted [1000, 4000 :: real] \<and> 2 \<le> length [1000, 4000 :: real]
   \<and> 0 < W0 default_grid
   \<and> pixel_edges [1000, 4000] ! 0 = - 500
   \<and> log_rebin (Some default_grid) [1000, 4000] [1, 1] = Inl ValueError"
  using log_rebin_raises_on_nonpositive_first_edge [of default_grid "[1000, 4000]" "[1, 1]"]
  by (simp add: default_grid_def init_wavelength_grid_def pixel_edges_def)

subsection \<open>Spline continuum\<close>

lemma chop_right_le: "chop_right flux l2 nuked \<le> l2"
proof (induction flux l2 nuked rule: chop_right.induct)
  case (1 flux l2 nuked)
  show ?case
  proof (cases "1 < l2 \<and> (flux ! l2 \<le> 0 \<or> nuked < 1)")
    case True
    then have "chop_right flux l2 nuked
        = chop_right flux (l2 - 1) (if 0 < flux ! l2 then nuked + 1 else nuked)"
      by (subst chop_right.simps) simp
    moreover have "chop_right flux (l2 - 1) (if 0 < flux ! l2 then nuked + 1 else nuked) \<le> l2 - 1"
      using 1 True by blast
    ultimately show ?thesis by simp
  next
    case False
    then have "chop_right flux l2 nuked = l2" by (subst chop_right.simps) auto
    then show ?thesis by simp
  qed
qed

lemma usable_range_less:
  assumes "flux \<noteq> []"
  shows "usable_range flux < int (length flux)"
proof -
  have "0 < length flux" using assms by simp
  then have "int (chop_right flux (length flux - 1) 0) < int (length flux)"
    using chop_right_le [of flux "length flux - 1" 0] by linarith
  then show ?thesis unfolding usable_range_def by linarith
qed

lemma kwidth_nonzero:
  assumes "3 \<le> knotnum" and "3 * knotnum \<le> usable_range flux" and "flux \<noteq> []"
  shows "int (length flux) div knotnum \<noteq> 0"
proof -
  have "knotnum \<le> int (length flux)"
    using assms usable_range_less [of flux] by linarith
  then have "1 \<le> int (length flux) div knotnum"
    using assms(1) by (simp add: pos_imp_zdiv_pos_iff int_one_le_iff_zero_less)
  then show ?thesis by simp
qed

lemma length_np_diff: "length (np_diff xs) = length xs - 1"
  by (simp add: np_diff_def)

lemma spline_y2_ok:
  assumes "3 \<le> length xknot" and "length yknot = length xknot"
  shows "\<exists>y2. spline_y2 xknot yknot = Inr y2"
proof -
  have a: "map2 (\<lambda>a b. 2 * (a + b)) (butlast (np_diff xknot)) (tl (np_diff xknot)) \<noteq> []"
    using assms by (simp add: length_np_diff flip: length_greater_0_conv)
  have b: "map2 (\<lambda>p q. 6 * (p - q))
                  (map2 (/) (map2 (-) (drop 2 yknot) (butlast (tl yknot))) (tl (np_diff xknot)))
                  (map2 (/) (map2 (-) (butlast (tl yknot)) (butlast (butlast yknot)))
                     (butlast (np_diff xknot))) \<noteq> []"
    using assms by (simp add: length_np_diff flip: length_greater_0_conv)
  show ?thesis
    using a b by (simp add: spline_y2_def Let_def)
qed

text \<open>
  C10. \<^verbatim>\<open>fit_continuum_spline\<close> returns for every flux array, knot number and offset:
  none of its index reads or integer divisions can fail. Whenever the array has fewer
  than 10 bins, or \<open>knotnum < 3\<close>, or the range left after chopping the ends is shorter
  than \<open>3 * knotnum\<close>, or fewer than 3 knots are placed, the result is \<open>flat\<close> all 0 and
  \<open>continuum\<close> all 1, not an error.
\<close>

theorem fit_continuum_spline_never_raises:
  "\<exists>flat cont.
      fit_continuum_spline flux knotnum izoff = Inr (flat, cont)
    \<and> length flat = length flux
    \<and> length cont = length flux
    \<and> (length flux < 10 \<or> knotnum < 3 \<or> usable_range flux < 3 * knotnum
          \<or> length (placed_knots flux knotnum izoff) < 3
        \<longrightarrow> flat = replicate (length flux) 0 \<and> cont = replicate (length flux) 1)"
proof -
  let ?n = "length flux"
  let ?triv = "Inr (replicate ?n 0, replicate ?n 1) :: py_error + real list \<times> real list"
  consider (small) "?n < 10 \<or> knotnum < 3"
    | (short) "\<not> (?n < 10 \<or> knotnum < 3)" "usable_range flux < 3 * knotnum"
    | (few) "\<not> (?n < 10 \<or> knotnum < 3)" "\<not> usable_range flux < 3 * knotnum"
        "length (placed_knots flux knotnum izoff) < 3"
    | (fit) "\<not> (?n < 10 \<or> knotnum < 3)" "\<not> usable_range flux < 3 * knotnum"
        "\<not> length (placed_knots flux knotnum izoff) < 3"
    by blast
  then show ?thesis
  proof cases
    case small
    then have "fit_continuum_spline flux knotnum izoff = ?triv"
      by (simp add: fit_continuum_spline_def Let_def)
    then show ?thesis by simp
  next
    case short
    then have "fit_continuum_spline flux knotnum izoff = ?triv"
      by (simp add: fit_continuum_spline_def Let_def)
    then show ?thesis by simp
  next
    case few
    have ne: "flux \<noteq> []" using few(1) by auto
    have kw: "int ?n div knotnum \<noteq> 0"
      using kwidth_nonzero [of knotnum flux] few(1,2) ne by simp
    have "fit_continuum_spline flux knotnum izoff = ?triv"
      using few kw by (simp add: fit_continuum_spline_def Let_def)
    then show ?thesis by simp
  next
    case fit
    have ne: "flux \<noteq> []" using fit(1) by auto
    have kw: "int ?n div knotnum \<noteq> 0"
      using kwidth_nonzero [of knotnum flux] fit(1,2) ne by simp
    define knots where "knots = placed_knots flux knotnum izoff"
    have nk: "3 \<le> length (map fst knots)" "length (map snd knots) = length (map fst knots)"
      using fit(3) by (simp_all add: knots_def)
    obtain y2 where y2: "spline_y2 (map fst knots) (map snd knots) = Inr y2"
      using spline_y2_ok [OF nk] by blast
    define cont where "cont = map (spline_cont (map fst knots) (map snd knots) y2) [0 ..< ?n]"
    define flat where
      "flat = map2 (\<lambda>f c. if 0 < f \<and> 0 < c then f / c - 1 else 0) flux cont"
    have r: "fit_continuum_spline flux knotnum izoff = Inr (flat, cont)"
      using fit kw y2
      by (simp add: fit_continuum_spline_def Let_def knots_def [symmetric] cont_def flat_def)
    have l: "length cont = ?n" "length flat = ?n" by (simp_all add: cont_def flat_def)
    show ?thesis
    proof (intro exI conjI)
      show "fit_continuum_spline flux knotnum izoff = Inr (flat, cont)" by (rule r)
      show "length flat = ?n" by (rule l(2))
      show "length cont = ?n" by (rule l(1))
      show "?n < 10 \<or> knotnum < 3 \<or> usable_range flux < 3 * knotnum
              \<or> length (placed_knots flux knotnum izoff) < 3
            \<longrightarrow> flat = replicate ?n 0 \<and> cont = replicate ?n 1"
        using fit by blast
    qed
  qed
qed

theorem fit_continuum_spline_never_raises_witness:
  "fit_continuum_spline [1, 2, 3] 13 0 = Inr ([0, 0, 0], [1, 1, 1])"
proof -
  obtain flat cont where
    r: "fit_continuum_spline [1, 2, 3] 13 0 = Inr (flat, cont)"
    and t: "length [1, 2, 3 :: real] < 10 \<or> (13 :: int) < 3 \<or> usable_range [1, 2, 3] < 3 * 13
          \<or> length (placed_knots [1, 2, 3] 13 0) < 3
        \<longrightarrow> flat = replicate (length [1, 2, 3 :: real]) 0
          \<and> cont = replicate (length [1, 2, 3 :: real]) 1"
    using fit_continuum_spline_never_raises [of "[1, 2, 3]" 13 0] by blast
  have "flat = [0, 0, 0] \<and> cont = [1, 1, 1]"
    using t by (simp add: numeral_3_eq_3)
  then show ?thesis using r by simp
qed

subsection \<open>\<^verbatim>\<open>flatten_spectrum\<close>\<close>

lemma call_log_rebin_num_points:
  "call_log_rebin grid_state wave fsrc [(''num_points'', num_points)] = Inl TypeError"
  by (simp add: call_log_rebin_def log_rebin_parameters_def)

text \<open>
  C9. \<^verbatim>\<open>flatten_spectrum\<close> never returns a result, whatever its arguments: its call
  \<^verbatim>\<open>log_rebin(wave, flux, num_points=num_points)\<close> passes a keyword that \<^verbatim>\<open>log_rebin\<close>
  does not accept. For every wavelength and flux array the exception is \<^verbatim>\<open>TypeError\<close>
  with the default smoothing \<^verbatim>\<open>"none"\<close> and with \<^verbatim>\<open>"pixel"\<close>, for every
  apodization percentage, smoothing value, number of points, library filter and state of
  the grid.
\<close>

theorem flatten_spectrum_always_raises:
  "(\<exists>e. flatten_spectrum savgol_filter grid_state wave flux apodize_percent median_filter_type
           median_filter_value num_points = Inl e)
   \<and> flatten_spectrum savgol_filter grid_state wave flux apodize_percent ''none''
        median_filter_value num_points = Inl TypeError
   \<and> flatten_spectrum savgol_filter grid_state wave flux apodize_percent ''pixel''
        median_filter_value num_points = Inl TypeError"
  by (auto simp: flatten_spectrum_def Let_def call_log_rebin_num_points split: sum.splits)

theorem flatten_spectrum_always_raises_witness:
  "flatten_spectrum lsq_savgol_filter (Some default_grid) [4000, 5000, 6000] [1, 2, 3] 5 ''none'' 0
     1024 = Inl TypeError"
  using flatten_spectrum_always_raises
    [of lsq_savgol_filter "Some default_grid" "[4000, 5000, 6000]" "[1, 2, 3]" 5 "''none''" 0 1024]
  by (elim conjE)

subsection \<open>Exit codes and error output of \<^verbatim>\<open>identify\<close>\<close>

lemma on_exception_code: "fst (on_exception env out e) = 1"
  by (simp add: on_exception_def split: exc.splits)

text \<open>The exit code is 0 or 1, and 0 exactly on the success path.\<close>

lemma main_exit_code: "fst (main env) = 0 \<or> fst (main env) = 1"
  by (auto simp: main_def Let_def on_exception_code split: option.splits sum.splits exc.splits)

lemma main_success_iff:
  "fst (main env) = 0 \<longleftrightarrow>
     logging_setup env = None \<and> spectrum_exists env \<and> (\<exists>d. templates_dir env = Inr d)
     \<and> preprocessing env = None
     \<and> (\<exists>r. analysis env = Inr (Some r) \<and> success r) \<and> saving env = None"
  by (auto simp: main_def Let_def on_exception_code split: option.splits sum.splits exc.splits)

text \<open>
  C5 at an analysis failure: the exit code is 1, but nothing is written to standard
  error. The message goes to standard output, starts with a newline before
  \<^verbatim>\<open>[ERROR]\<close>, and is followed by an \<^verbatim>\<open>Error:\<close> line without the prefix.
\<close>

theorem identify_analysis_failure_goes_to_stdout:
  "fst (main analysis_failed_env) = 1
   \<and> stderr_lines (snd (main analysis_failed_env)) = []
   \<and> stdout_lines (snd (main analysis_failed_env))
       = [magnifier @ '' Starting SNID analysis...'',
          CHR 0x0D # ''[SUCCESS] Analysis failed'',
          '''',
          CHR 0x0A # ''[ERROR] SNID analysis failed for sn2020abc'',
          ''   Error: no templates'']"
  by (simp add: main_def analysis_failed_env_def Let_def stderr_lines_def stdout_lines_def
      finish_line_def)

end
